theory Spec2Isabelle
  imports Complex_Main "HOL-Library.Sublist"
begin

section \<open>JavaScript values\<close>

text \<open>
  The rule-logic pipeline works on values typed \<open>unknown\<close>: trees as \<open>JSON.parse\<close>
  yields them, without shared references. A value that may be \<open>undefined\<close> is a
  \<open>json option\<close>, with \<open>None\<close> for \<open>undefined\<close>. Strings are sequences of code units
  below 256 and numbers are the integral ones.
\<close>

datatype json =
    JNull
  | JBool bool
  | JNum int
  | JStr string
  | JArr "json list"
  | JObj "(string \<times> json) list"

datatype error = TypeError string | SyntaxError string | Error string

fun message :: "error \<Rightarrow> string" where
  "message (TypeError m) = m"
| "message (SyntaxError m) = m"
| "message (Error m) = m"

text \<open>Truthiness: \<open>undefined\<close>, \<open>null\<close>, \<open>false\<close>, \<open>0\<close> and \<open>""\<close> are falsy.\<close>

fun truthy :: "json option \<Rightarrow> bool" where
  "truthy None = False"
| "truthy (Some JNull) = False"
| "truthy (Some (JBool b)) = b"
| "truthy (Some (JNum n)) = (n \<noteq> 0)"
| "truthy (Some (JStr s)) = (s \<noteq> [])"
| "truthy (Some (JArr xs)) = True"
| "truthy (Some (JObj kvs)) = True"

text \<open>\<open>typeof x === 'object'\<close> holds of \<open>null\<close>, arrays and objects.\<close>

fun typeof_object :: "json option \<Rightarrow> bool" where
  "typeof_object (Some JNull) = True"
| "typeof_object (Some (JArr xs)) = True"
| "typeof_object (Some (JObj kvs)) = True"
| "typeof_object _ = False"

fun typeof_string :: "json option \<Rightarrow> bool" where
  "typeof_string (Some (JStr s)) = True"
| "typeof_string _ = False"

fun isArray :: "json option \<Rightarrow> bool" where
  "isArray (Some (JArr xs)) = True"
| "isArray _ = False"

text \<open>
  \<open>x.k\<close> on a value that is neither \<open>null\<close> nor \<open>undefined\<close>, for the property names
  the sources read: an object gives its own property, every other value gives
  \<open>undefined\<close> (an array's inherited \<open>filter\<close> and \<open>values\<close> are functions, which have
  none of these properties and are not of type \<open>'object'\<close>, so the callers below
  treat them as they treat \<open>undefined\<close>).
\<close>

fun get :: "string \<Rightarrow> json \<Rightarrow> json option" where
  "get k (JObj kvs) = map_of kvs k"
| "get k _ = None"

text \<open>\<open>x?.k\<close>: \<open>undefined\<close> when \<open>x\<close> is \<open>null\<close> or \<open>undefined\<close>.\<close>

fun getq :: "string \<Rightarrow> json option \<Rightarrow> json option" where
  "getq k None = None"
| "getq k (Some JNull) = None"
| "getq k (Some v) = get k v"

text \<open>\<open>x.k\<close> on any value: reading a property of \<open>null\<close> or \<open>undefined\<close> throws.\<close>

fun get_strict :: "string \<Rightarrow> json option \<Rightarrow> error + json option" where
  "get_strict k None =
     Inl (TypeError (''Cannot read properties of undefined (reading '' @ k @ '')''))"
| "get_strict k (Some JNull) =
     Inl (TypeError (''Cannot read properties of null (reading '' @ k @ '')''))"
| "get_strict k (Some v) = Inr (get k v)"

subsection \<open>Conversion to string\<close>

fun digit_char :: "nat \<Rightarrow> char" where
  "digit_char n = char_of (48 + n)"

fun show_nat :: "nat \<Rightarrow> string" where
  "show_nat n = (if n < 10 then [digit_char n] else show_nat (n div 10) @ [digit_char (n mod 10)])"

declare show_nat.simps [simp del]

definition show_int :: "int \<Rightarrow> string" where
  "show_int i = (if i < 0 then CHR ''-'' # show_nat (nat (- i)) else show_nat (nat i))"

text \<open>\<open>Array.prototype.join\<close> on an array of strings.\<close>

fun join :: "string \<Rightarrow> string list \<Rightarrow> string" where
  "join sep [] = []"
| "join sep [x] = x"
| "join sep (x # y # ys) = x @ sep @ join sep (y # ys)"

text \<open>
  \<open>String(x)\<close>, as a template literal applies it: an array joins its elements with
  commas, \<open>null\<close> elements giving the empty string.
\<close>

fun ToString :: "json \<Rightarrow> string" where
  "ToString JNull = ''null''"
| "ToString (JBool b) = (if b then ''true'' else ''false'')"
| "ToString (JNum n) = show_int n"
| "ToString (JStr s) = s"
| "ToString (JArr xs) = join '','' (map (\<lambda>x. if x = JNull then [] else ToString x) xs)"
| "ToString (JObj kvs) = ''[object Object]''"

fun ToStringU :: "json option \<Rightarrow> string" where
  "ToStringU None = ''undefined''"
| "ToStringU (Some v) = ToString v"

subsection \<open>Sets of values\<close>

text \<open>
  A \<open>Set\<close> keeps its elements in insertion order and compares them by SameValueZero:
  primitives by value, objects and arrays by reference, so that two nodes of a tree
  are never the same element.
\<close>

fun sameValueZero :: "json \<Rightarrow> json \<Rightarrow> bool" where
  "sameValueZero (JArr xs) y = False"
| "sameValueZero (JObj kvs) y = False"
| "sameValueZero x y = (x = y)"

definition set_add :: "json \<Rightarrow> json list \<Rightarrow> json list" where
  "set_add x s = (if \<exists>y \<in> set s. sameValueZero x y then s else s @ [x])"

text \<open>\<open>other.forEach(p => s.add(p))\<close>\<close>

definition add_all :: "json list \<Rightarrow> json list \<Rightarrow> json list" where
  "add_all other s = fold set_add other s"

text \<open>\<open>strings.includes(x)\<close> for an array of strings and any value \<open>x\<close>.\<close>

fun includes_str :: "string list \<Rightarrow> json option \<Rightarrow> bool" where
  "includes_str xs (Some (JStr s)) = (s \<in> set xs)"
| "includes_str xs _ = False"

section \<open>Property extraction\<close>

lemma size_map_of:
  "map_of kvs k = Some w \<Longrightarrow> size w < Suc (size_list (size_prod (\<lambda>_. 0) size) kvs)"
  by (induction kvs) (auto split: if_splits)

lemma size_get: "get k v = Some w \<Longrightarrow> size w < size v"
  by (cases v) (auto dest: size_map_of)

lemma size_elem: "x \<in> set xs \<Longrightarrow> size x < Suc (size_list size xs)"
  by (induction xs) auto

function extractPropertiesFromFilter :: "json option \<Rightarrow> json list" where
  "extractPropertiesFromFilter None = []"
| "extractPropertiesFromFilter (Some f) =
    (if \<not> truthy (Some f) \<or> \<not> typeof_object (Some f) then []
     else
       let properties = [];
           properties =
             (case get ''columnFilterRule'' f of
                None \<Rightarrow> properties
              | Some rule \<Rightarrow>
                  if truthy (Some rule) then
                    (let column = get ''column'' rule;
                         objProp = getq ''objectProperty'' column
                     in if truthy (getq ''propertyTypeId'' objProp)
                        then set_add (the (getq ''propertyTypeId'' objProp)) properties
                        else properties)
                  else properties);
           properties =
             (case get ''orFilterRule'' f of
                None \<Rightarrow> properties
              | Some rule \<Rightarrow>
                  if truthy (Some rule) then
                    (case get ''filters'' rule of
                       Some (JArr filters) \<Rightarrow>
                         fold (\<lambda>subFilter ps. add_all (extractPropertiesFromFilter (Some subFilter)) ps)
                           filters properties
                     | _ \<Rightarrow> properties)
                  else properties);
           properties =
             (case get ''andFilterRule'' f of
                None \<Rightarrow> properties
              | Some rule \<Rightarrow>
                  if truthy (Some rule) then
                    (case get ''filters'' rule of
                       Some (JArr filters) \<Rightarrow>
                         fold (\<lambda>subFilter ps. add_all (extractPropertiesFromFilter (Some subFilter)) ps)
                           filters properties
                     | _ \<Rightarrow> properties)
                  else properties);
           properties =
             (case get ''notFilterRule'' f of
                None \<Rightarrow> properties
              | Some rule \<Rightarrow>
                  if truthy (Some rule)
                  then add_all (extractPropertiesFromFilter (get ''filter'' rule)) properties
                  else properties)
       in properties)"
  by pat_completeness auto
termination
  apply (relation "measure (\<lambda>x. case x of None \<Rightarrow> 0 | Some v \<Rightarrow> size v)")
  apply (auto dest!: size_get size_elem split: option.splits)
  done


text \<open>\<open>extractPropertyFromColumn\<close> returns the property id, or \<open>null\<close>.\<close>

definition extractPropertyFromColumn :: "json option \<Rightarrow> json" where
  "extractPropertyFromColumn column =
     (if \<not> truthy column \<or> \<not> typeof_object column then JNull
      else
        let objProp = getq ''objectProperty'' column
        in case getq ''propertyTypeId'' objProp of
             None \<Rightarrow> JNull
           | Some propId \<Rightarrow> if truthy (Some propId) then propId else JNull)"

text \<open>A \<open>for\<close> loop whose body may throw: the first exception ends it.\<close>

fun for_each :: "('a \<Rightarrow> 's \<Rightarrow> error + 's) \<Rightarrow> 'a list \<Rightarrow> 's \<Rightarrow> error + 's" where
  "for_each body [] s = Inr s"
| "for_each body (x # xs) s =
     (case body x s of Inl e \<Rightarrow> Inl e | Inr s' \<Rightarrow> for_each body xs s')"

definition add_if_truthy :: "json \<Rightarrow> json list \<Rightarrow> json list" where
  "add_if_truthy propId properties =
     (if truthy (Some propId) then set_add propId properties else properties)"

text \<open>
  \<open>if (Array.isArray(xs)) { for (const x of xs) body }\<close>: the loop runs only over an
  array.
\<close>

definition columns_loop ::
  "(json \<Rightarrow> json list \<Rightarrow> error + json list) \<Rightarrow> json option \<Rightarrow> json list \<Rightarrow> error + json list" where
  "columns_loop body xs properties =
     (case xs of
        Some (JArr cols) \<Rightarrow> for_each body cols properties
      | _ \<Rightarrow> Inr properties)"

text \<open>
  The body of the loops over \<open>columnsToAdd\<close>: \<open>col.columnDefinition\<close> throws on a \<open>null\<close>
  entry; the column is read from the definition under \<open>key\<close>.
\<close>

definition add_column_definition :: "string \<Rightarrow> json \<Rightarrow> json list \<Rightarrow> error + json list" where
  "add_column_definition key col properties =
     (case get_strict ''columnDefinition'' (Some col) of
        Inl e \<Rightarrow> Inl e
      | Inr def \<Rightarrow> Inr (add_if_truthy (extractPropertyFromColumn (getq key def)) properties))"

definition extractPropertiesFromWindowNode :: "json option \<Rightarrow> error + json list" where
  "extractPropertiesFromWindowNode node =
     (case node of
        None \<Rightarrow> Inr []
      | Some n \<Rightarrow>
          if \<not> truthy node \<or> \<not> typeof_object node then Inr []
          else
            case columns_loop (add_column_definition ''column'') (get ''columnsToAdd'' n) [] of
              Inl e \<Rightarrow> Inl e
            | Inr properties \<Rightarrow>
                columns_loop
                  (\<lambda>col ps. Inr (add_if_truthy (extractPropertyFromColumn (Some col)) ps))
                  (get ''partitionBy'' n) properties)"

text \<open>The body of the loop over \<open>groupByColumns\<close>: \<open>col.column\<close> throws on a \<open>null\<close> entry.\<close>

definition add_group_by_column :: "json \<Rightarrow> json list \<Rightarrow> error + json list" where
  "add_group_by_column col properties =
     (case get_strict ''column'' (Some col) of
        Inl e \<Rightarrow> Inl e
      | Inr column \<Rightarrow> Inr (add_if_truthy (extractPropertyFromColumn column) properties))"

definition extractPropertiesFromAggregationNode :: "json option \<Rightarrow> error + json list" where
  "extractPropertiesFromAggregationNode node =
     (case node of
        None \<Rightarrow> Inr []
      | Some n \<Rightarrow>
          if \<not> truthy node \<or> \<not> typeof_object node then Inr []
          else
            case columns_loop (add_column_definition ''aggregationColumn'')
                   (get ''columnsToAdd'' n) [] of
              Inl e \<Rightarrow> Inl e
            | Inr properties \<Rightarrow>
                columns_loop add_group_by_column (get ''groupByColumns'' n) properties)"

text \<open>
  The values of \<open>Object.entries(x)\<close> for a truthy \<open>x\<close>: the own enumerable properties,
  which for an array are its elements and for a string its characters.
\<close>

fun entry_values :: "json \<Rightarrow> json list" where
  "entry_values (JObj kvs) = map snd kvs"
| "entry_values (JArr xs) = xs"
| "entry_values (JStr s) = map (\<lambda>c. JStr [c]) s"
| "entry_values _ = []"

text \<open>The body of the loop over the parameter values of the effect.\<close>

definition add_parameter_value :: "json \<Rightarrow> json list \<Rightarrow> json list" where
  "add_parameter_value v properties =
     (if getq ''type'' (Some v) = Some (JStr ''column'')
      then add_if_truthy (extractPropertyFromColumn (get ''column'' v)) properties
      else properties)"

definition effect_properties :: "json \<Rightarrow> json list \<Rightarrow> json list" where
  "effect_properties l properties =
     (let effect = get ''effect'' l;
          v2 = getq ''v2'' effect;
          parameterValues = getq ''parameterValues'' v2
      in case parameterValues of
           None \<Rightarrow> properties
         | Some pv \<Rightarrow>
             if truthy parameterValues
             then fold add_parameter_value (entry_values pv) properties
             else properties)"

definition extractAllProperties :: "json option \<Rightarrow> error + json list" where
  "extractAllProperties logic =
     (case logic of
        None \<Rightarrow> Inr []
      | Some l \<Rightarrow>
          if \<not> truthy logic \<or> \<not> typeof_object logic then Inr []
          else
            case get ''strategy'' l of
              None \<Rightarrow> Inr []
            | Some strategy \<Rightarrow>
                if \<not> truthy (Some strategy) then Inr []
                else
                  let properties =
                        (case get ''filterNode'' strategy of
                           None \<Rightarrow> []
                         | Some node \<Rightarrow>
                             if truthy (Some node)
                             then add_all (extractPropertiesFromFilter (get ''filter'' node)) []
                             else [])
                  in case (if truthy (get ''windowNode'' strategy)
                           then (case extractPropertiesFromWindowNode (get ''windowNode'' strategy) of
                                   Inl e \<Rightarrow> Inl e
                                 | Inr ws \<Rightarrow> Inr (add_all ws properties))
                           else Inr properties) of
                       Inl e \<Rightarrow> Inl e
                     | Inr properties \<Rightarrow>
                         (case (if truthy (get ''aggregationNode'' strategy)
                                then (case extractPropertiesFromAggregationNode
                                             (get ''aggregationNode'' strategy) of
                                        Inl e \<Rightarrow> Inl e
                                      | Inr as \<Rightarrow> Inr (add_all as properties))
                                else Inr properties) of
                            Inl e \<Rightarrow> Inl e
                          | Inr properties \<Rightarrow> Inr (effect_properties l properties)))"

section \<open>Property validation\<close>

record PropertyDefinition =
  prop_id :: string
  prop_type :: string

record ObjectTypeConfig =
  object_type_id :: string
  dynamicLookup :: bool
  properties :: "PropertyDefinition list"

record PropertyValidationResult =
  pvalid :: bool
  perrors :: "string list"
  usedProperties :: "json list"
  validProperties :: "string list"

definition property_error :: "ObjectTypeConfig \<Rightarrow> json \<Rightarrow> string" where
  "property_error objectTypeConfig prop =
     ''Property \"'' @ ToString prop @ ''\" does not exist on object type \"''
       @ object_type_id objectTypeConfig @ ''\". ''
       @ ''Valid properties: '' @ join '', '' (map prop_id (properties objectTypeConfig))"

definition validateProperties ::
  "json option \<Rightarrow> ObjectTypeConfig \<Rightarrow> error + PropertyValidationResult" where
  "validateProperties logic objectTypeConfig =
     (case extractAllProperties logic of
        Inl e \<Rightarrow> Inl e
      | Inr usedList \<Rightarrow>
          let validProperties = map prop_id (properties objectTypeConfig);
              errors = map (property_error objectTypeConfig)
                         (filter (\<lambda>prop. \<not> includes_str validProperties (Some prop)) usedList)
          in Inr \<lparr> pvalid = (length errors = 0), perrors = errors,
                   usedProperties = usedList, validProperties = validProperties \<rparr>)"


section \<open>Filter type extraction\<close>

function extractStringFilterTypes :: "json option \<Rightarrow> json list" where
  "extractStringFilterTypes None = []"
| "extractStringFilterTypes (Some f) =
    (if \<not> truthy (Some f) \<or> \<not> typeof_object (Some f) then []
     else
       let types = [];
           types =
             (case get ''columnFilterRule'' f of
                None \<Rightarrow> types
              | Some rule \<Rightarrow>
                  if truthy (Some rule) then
                    (let columnFilter = get ''filter'' rule;
                         strFilter = getq ''stringColumnFilter'' columnFilter
                     in case getq ''type'' strFilter of
                          None \<Rightarrow> types
                        | Some t \<Rightarrow> if truthy (Some t) then set_add t types else types)
                  else types);
           types =
             (case get ''orFilterRule'' f of
                None \<Rightarrow> types
              | Some rule \<Rightarrow>
                  if truthy (Some rule) then
                    (case get ''filters'' rule of
                       Some (JArr filters) \<Rightarrow>
                         fold (\<lambda>subFilter ts. add_all (extractStringFilterTypes (Some subFilter)) ts) filters types
                     | _ \<Rightarrow> types)
                  else types);
           types =
             (case get ''andFilterRule'' f of
                None \<Rightarrow> types
              | Some rule \<Rightarrow>
                  if truthy (Some rule) then
                    (case get ''filters'' rule of
                       Some (JArr filters) \<Rightarrow>
                         fold (\<lambda>subFilter ts. add_all (extractStringFilterTypes (Some subFilter)) ts) filters types
                     | _ \<Rightarrow> types)
                  else types);
           types =
             (case get ''notFilterRule'' f of
                None \<Rightarrow> types
              | Some rule \<Rightarrow>
                  if truthy (Some rule)
                  then add_all (extractStringFilterTypes (get ''filter'' rule)) types
                  else types)
       in types)"
  by pat_completeness auto
termination
  apply (relation "measure (\<lambda>x. case x of None \<Rightarrow> 0 | Some v \<Rightarrow> size v)")
  apply (auto dest!: size_get size_elem split: option.splits)
  done

function extractNumericFilterTypes :: "json option \<Rightarrow> json list" where
  "extractNumericFilterTypes None = []"
| "extractNumericFilterTypes (Some f) =
    (if \<not> truthy (Some f) \<or> \<not> typeof_object (Some f) then []
     else
       let types = [];
           types =
             (case get ''columnFilterRule'' f of
                None \<Rightarrow> types
              | Some rule \<Rightarrow>
                  if truthy (Some rule) then
                    (let columnFilter = get ''filter'' rule;
                         numFilter = getq ''numericColumnFilter'' columnFilter
                     in case getq ''type'' numFilter of
                          None \<Rightarrow> types
                        | Some t \<Rightarrow> if truthy (Some t) then set_add t types else types)
                  else types);
           types =
             (case get ''orFilterRule'' f of
                None \<Rightarrow> types
              | Some rule \<Rightarrow>
                  if truthy (Some rule) then
                    (case get ''filters'' rule of
                       Some (JArr filters) \<Rightarrow>
                         fold (\<lambda>subFilter ts. add_all (extractNumericFilterTypes (Some subFilter)) ts) filters types
                     | _ \<Rightarrow> types)
                  else types);
           types =
             (case get ''andFilterRule'' f of
                None \<Rightarrow> types
              | Some rule \<Rightarrow>
                  if truthy (Some rule) then
                    (case get ''filters'' rule of
                       Some (JArr filters) \<Rightarrow>
                         fold (\<lambda>subFilter ts. add_all (extractNumericFilterTypes (Some subFilter)) ts) filters types
                     | _ \<Rightarrow> types)
                  else types);
           types =
             (case get ''notFilterRule'' f of
                None \<Rightarrow> types
              | Some rule \<Rightarrow>
                  if truthy (Some rule)
                  then add_all (extractNumericFilterTypes (get ''filter'' rule)) types
                  else types)
       in types)"
  by pat_completeness auto
termination
  apply (relation "measure (\<lambda>x. case x of None \<Rightarrow> 0 | Some v \<Rightarrow> size v)")
  apply (auto dest!: size_get size_elem split: option.splits)
  done

function extractNullFilterTypes :: "json option \<Rightarrow> json list" where
  "extractNullFilterTypes None = []"
| "extractNullFilterTypes (Some f) =
    (if \<not> truthy (Some f) \<or> \<not> typeof_object (Some f) then []
     else
       let types = [];
           types =
             (case get ''columnFilterRule'' f of
                None \<Rightarrow> types
              | Some rule \<Rightarrow>
                  if truthy (Some rule) then
                    (let columnFilter = get ''filter'' rule;
                         nullFilter = getq ''nullColumnFilter'' columnFilter
                     in case getq ''type'' nullFilter of
                          None \<Rightarrow> types
                        | Some t \<Rightarrow> if truthy (Some t) then set_add t types else types)
                  else types);
           types =
             (case get ''orFilterRule'' f of
                None \<Rightarrow> types
              | Some rule \<Rightarrow>
                  if truthy (Some rule) then
                    (case get ''filters'' rule of
                       Some (JArr filters) \<Rightarrow>
                         fold (\<lambda>subFilter ts. add_all (extractNullFilterTypes (Some subFilter)) ts) filters types
                     | _ \<Rightarrow> types)
                  else types);
           types =
             (case get ''andFilterRule'' f of
                None \<Rightarrow> types
              | Some rule \<Rightarrow>
                  if truthy (Some rule) then
                    (case get ''filters'' rule of
                       Some (JArr filters) \<Rightarrow>
                         fold (\<lambda>subFilter ts. add_all (extractNullFilterTypes (Some subFilter)) ts) filters types
                     | _ \<Rightarrow> types)
                  else types);
           types =
             (case get ''notFilterRule'' f of
                None \<Rightarrow> types
              | Some rule \<Rightarrow>
                  if truthy (Some rule)
                  then add_all (extractNullFilterTypes (get ''filter'' rule)) types
                  else types)
       in types)"
  by pat_completeness auto
termination
  apply (relation "measure (\<lambda>x. case x of None \<Rightarrow> 0 | Some v \<Rightarrow> size v)")
  apply (auto dest!: size_get size_elem split: option.splits)
  done

section \<open>Filter type validation\<close>

record ValidationConfig =
  grammarVersion :: string
  supportedStrategyTypes :: "string list"
  supportedStringFilters :: "string list"
  unsupportedStringFilters :: "string list option"
  supportedNumericFilters :: "string list option"
  supportedNullFilters :: "string list option"

record UsedFilters =
  used_string :: "json list"
  used_numeric :: "json list"
  used_null :: "json list"

record FilterValidationResult =
  fvalid :: bool
  ferrors :: "string list"
  fwarnings :: "string list"
  usedFilters :: UsedFilters

definition unsupported_error :: "ValidationConfig \<Rightarrow> json \<Rightarrow> string" where
  "unsupported_error validationConfig filterType =
     ''String filter type \"'' @ ToString filterType @ ''\" is not supported. ''
       @ ''Use one of: '' @ join '', '' (supportedStringFilters validationConfig)"

definition untested_string_warning :: "json \<Rightarrow> string" where
  "untested_string_warning filterType =
     ''String filter type \"'' @ ToString filterType @ ''\" is not in the list of tested filters. ''
       @ ''It may not render correctly in the UI.''"

definition untested_numeric_warning :: "json \<Rightarrow> string" where
  "untested_numeric_warning filterType =
     ''Numeric filter type \"'' @ ToString filterType @ ''\" is not in the list of tested filters.''"

definition untested_null_warning :: "json \<Rightarrow> string" where
  "untested_null_warning filterType =
     ''Null filter type \"'' @ ToString filterType @ ''\" is not in the list of tested filters.''"

text \<open>\<open>xs?.includes(x)\<close> is \<open>undefined\<close>, so falsy, when \<open>xs\<close> is missing.\<close>

fun includes_opt :: "string list option \<Rightarrow> json \<Rightarrow> bool" where
  "includes_opt None x = False"
| "includes_opt (Some xs) x = includes_str xs (Some x)"

text \<open>
  The loop over the string filter types pushes to \<open>errors\<close> or to \<open>warnings\<close>; the
  state of the loop is the pair of both lists.
\<close>

definition check_string_filter ::
  "ValidationConfig \<Rightarrow> json \<Rightarrow> string list \<times> string list \<Rightarrow> string list \<times> string list" where
  "check_string_filter validationConfig filterType ew =
     (if includes_opt (unsupportedStringFilters validationConfig) filterType
      then (fst ew @ [unsupported_error validationConfig filterType], snd ew)
      else if \<not> includes_str (supportedStringFilters validationConfig) (Some filterType)
      then (fst ew, snd ew @ [untested_string_warning filterType])
      else ew)"

definition check_listed ::
  "string list option \<Rightarrow> (json \<Rightarrow> string) \<Rightarrow> json list \<Rightarrow> string list \<Rightarrow> string list" where
  "check_listed supported warning types warnings =
     (case supported of
        None \<Rightarrow> warnings
      | Some supported_list \<Rightarrow>
          if length supported_list \<noteq> 0
          then fold (\<lambda>filterType ws.
                       if \<not> includes_str supported_list (Some filterType) then ws @ [warning filterType] else ws)
                 types warnings
          else warnings)"

definition logic_filter :: "json option \<Rightarrow> json option" where
  "logic_filter logic = getq ''filter'' (getq ''filterNode'' (getq ''strategy'' logic))"

definition validateFilterTypes :: "json option \<Rightarrow> ValidationConfig \<Rightarrow> FilterValidationResult" where
  "validateFilterTypes logic validationConfig =
     (let flt = logic_filter logic;
          stringTypes = extractStringFilterTypes flt;
          numericTypes = extractNumericFilterTypes flt;
          nullTypes = extractNullFilterTypes flt;
          ew = fold (check_string_filter validationConfig) stringTypes ([], []);
          errors = fst ew;
          warnings = snd ew;
          warnings = check_listed (supportedNumericFilters validationConfig)
                       untested_numeric_warning numericTypes warnings;
          warnings = check_listed (supportedNullFilters validationConfig)
                       untested_null_warning nullTypes warnings
      in \<lparr> fvalid = (length errors = 0), ferrors = errors, fwarnings = warnings,
           usedFilters = \<lparr> used_string = stringTypes, used_numeric = numericTypes,
                           used_null = nullTypes \<rparr> \<rparr>)"

section \<open>Structure validation\<close>

record ValidationResult =
  valid :: bool
  errors :: "string list"
  warnings :: "string list option"

text \<open>
  \<open>obj[key]\<close> for a computed key: an own property first, then the properties every
  object inherits from \<open>Object.prototype\<close>, which are all truthy.
\<close>

definition Object_prototype_keys :: "string list" where
  "Object_prototype_keys =
     [''constructor'', ''__defineGetter__'', ''__defineSetter__'', ''hasOwnProperty'',
      ''__lookupGetter__'', ''__lookupSetter__'', ''isPrototypeOf'', ''propertyIsEnumerable'',
      ''toString'', ''valueOf'', ''__proto__'', ''toLocaleString'']"

fun truthy_at :: "json \<Rightarrow> string \<Rightarrow> bool" where
  "truthy_at (JObj kvs) key =
     (case map_of kvs key of
        Some v \<Rightarrow> truthy (Some v)
      | None \<Rightarrow> key \<in> set Object_prototype_keys)"
| "truthy_at _ key = False"

text \<open>\<open>'type' in x\<close> for a truthy \<open>x\<close>: a primitive on the right of \<open>in\<close> throws.\<close>

fun type_in :: "json \<Rightarrow> error + bool" where
  "type_in (JObj kvs) = Inr (''type'' \<in> fst ` set kvs)"
| "type_in (JArr xs) = Inr False"
| "type_in v =
     Inl (TypeError (''Cannot use 'in' operator to search for 'type' in '' @ ToString v))"

definition check_strategy :: "json \<Rightarrow> ValidationConfig \<Rightarrow> string list \<Rightarrow> error + string list" where
  "check_strategy l validationConfig errs =
     (case get ''strategy'' l of
        None \<Rightarrow> Inr (errs @ [''strategy is required and must be an object''])
      | Some strategy \<Rightarrow>
          if \<not> truthy (Some strategy) \<or> \<not> typeof_object (Some strategy)
          then Inr (errs @ [''strategy is required and must be an object''])
          else
            let strategyType = get ''type'' strategy;
                errs =
                  (if \<not> includes_str (supportedStrategyTypes validationConfig) strategyType
                   then errs @
                     [''strategy.type must be one of [''
                        @ join '', '' (supportedStrategyTypes validationConfig)
                        @ ''], got: '' @ ToStringU strategyType]
                   else errs);
                errs =
                  (if truthy strategyType \<and> \<not> truthy_at strategy (ToStringU strategyType)
                   then errs @
                     [''strategy.'' @ ToStringU strategyType @ '' is required when type is ''
                        @ CHR 0x27 # ToStringU strategyType @ [CHR 0x27]]
                   else errs)
            in if strategyType = Some (JStr ''filterNode'') then
                 (case get ''filterNode'' strategy of
                    None \<Rightarrow> Inr errs
                  | Some filterNode \<Rightarrow>
                      if truthy (Some filterNode) then
                        (case type_in filterNode of
                           Inl e \<Rightarrow> Inl e
                         | Inr has_type \<Rightarrow>
                             if has_type
                             then Inr (errs @
                               [''filterNode should NOT have a type field (type goes in strategy)''])
                             else Inr errs)
                      else Inr errs)
               else Inr errs)"

definition check_effect :: "json \<Rightarrow> string list \<Rightarrow> string list" where
  "check_effect l errs =
     (case get ''effect'' l of
        None \<Rightarrow> errs @ [''effect is required and must be an object'']
      | Some effect \<Rightarrow>
          if \<not> truthy (Some effect) \<or> \<not> typeof_object (Some effect)
          then errs @ [''effect is required and must be an object'']
          else
            let errs =
                  (if get ''type'' effect \<noteq> Some (JStr ''v2'')
                   then errs @ [''effect.type must be 'v2', got: '' @ ToStringU (get ''type'' effect)]
                   else errs)
            in if \<not> truthy (get ''v2'' effect) \<or> \<not> typeof_object (get ''v2'' effect)
               then errs @ [''effect.v2 is required'']
               else if \<not> truthy (getq ''outputAndVersion'' (get ''v2'' effect))
               then errs @ [''effect.v2.outputAndVersion is required'']
               else errs)"

definition validateRuleLogic :: "json option \<Rightarrow> ValidationConfig \<Rightarrow> error + ValidationResult" where
  "validateRuleLogic logic validationConfig =
     (case logic of
        None \<Rightarrow> Inr \<lparr> valid = False, errors = [''Root must be an object''], warnings = None \<rparr>
      | Some l \<Rightarrow>
          if \<not> truthy logic \<or> \<not> typeof_object logic
          then Inr \<lparr> valid = False, errors = [''Root must be an object''], warnings = None \<rparr>
          else
            let errs = [];
                errs =
                  (if get ''grammarVersion'' l \<noteq> Some (JStr (grammarVersion validationConfig))
                   then errs @
                     [''grammarVersion must be '' @ CHR 0x27 # grammarVersion validationConfig
                        @ CHR 0x27 # '', got: '' @ ToStringU (get ''grammarVersion'' l)]
                   else errs);
                errs =
                  (if \<not> truthy (get ''workflowRid'' l) \<or> \<not> typeof_string (get ''workflowRid'' l)
                   then errs @ [''workflowRid is required and must be a string'']
                   else errs)
            in case check_strategy l validationConfig errs of
                 Inl e \<Rightarrow> Inl e
               | Inr errs \<Rightarrow>
                   let errs = check_effect l errs
                   in Inr \<lparr> valid = (length errs = 0), errors = errs, warnings = None \<rparr>)"

definition extractWorkflowRid :: "json option \<Rightarrow> json" where
  "extractWorkflowRid logic =
     (case logic of
        None \<Rightarrow> JNull
      | Some l \<Rightarrow>
          if \<not> truthy logic \<or> \<not> typeof_object logic then JNull
          else case get ''workflowRid'' l of
                 None \<Rightarrow> JNull
               | Some rid \<Rightarrow> if truthy (Some rid) then rid else JNull)"

text \<open>The loop over the three node types returns at the first one that names a source.\<close>

fun first_object_type :: "json \<Rightarrow> string list \<Rightarrow> json" where
  "first_object_type strategy [] = JNull"
| "first_object_type strategy (nodeType # nodeTypes) =
     (let node = get nodeType strategy;
          source = getq ''source'' (getq ''nodeInput'' node)
      in case getq ''objectTypeId'' source of
           None \<Rightarrow> first_object_type strategy nodeTypes
         | Some oid \<Rightarrow>
             if truthy (Some oid) then oid else first_object_type strategy nodeTypes)"

definition extractObjectTypeId :: "json option \<Rightarrow> json" where
  "extractObjectTypeId logic =
     (case logic of
        None \<Rightarrow> JNull
      | Some l \<Rightarrow>
          if \<not> truthy logic \<or> \<not> typeof_object logic then JNull
          else case get ''strategy'' l of
                 None \<Rightarrow> JNull
               | Some strategy \<Rightarrow>
                   if \<not> truthy (Some strategy) then JNull
                   else first_object_type strategy
                          [''filterNode'', ''windowNode'', ''aggregationNode''])"

section \<open>Full validation\<close>

record OutputConfig =
  output_id :: string
  output_version :: string

record WorkflowDefinition =
  workflow_name :: string
  workflowRid :: string
  objectType :: ObjectTypeConfig
  workflow_output :: OutputConfig

record ResolvedConfig =
  workflow :: WorkflowDefinition
  validation :: ValidationConfig

record FullValidationResult =
  full_valid :: bool
  structureErrors :: "string list"
  propertyErrors :: "string list"
  filterErrors :: "string list"
  filterWarnings :: "string list"

text \<open>\<open>xs.join(', ') || 'none'\<close> for a list of collected values, none of them \<open>null\<close>.\<close>

definition join_or_none :: "json list \<Rightarrow> string" where
  "join_or_none xs =
     (let s = join '', '' (map ToString xs) in if s = [] then ''none'' else s)"

text \<open>
  The console is the list of the lines written so far; \<open>performFullValidation\<close> takes
  it and returns it with its result, or with the exception that ended it.
\<close>

definition validate_passes ::
  "json option \<Rightarrow> ResolvedConfig \<Rightarrow> FullValidationResult \<Rightarrow> string list
     \<Rightarrow> (error + FullValidationResult) \<times> string list" where
  "validate_passes logic config result console =
     (let console = console @ [''Validating properties...'']
      in case extractAllProperties logic of
           Inl e \<Rightarrow> (Inl e, console)
         | Inr used \<Rightarrow>
             let console = console @ [''  Properties used: '' @ join_or_none used]
             in case validateProperties logic (objectType (workflow config)) of
                  Inl e \<Rightarrow> (Inl e, console)
                | Inr propResult \<Rightarrow>
                    let result = result\<lparr> propertyErrors := perrors propResult \<rparr>;
                        result = (if \<not> pvalid propResult then result\<lparr> full_valid := False \<rparr>
                                  else result);
                        console = (if \<not> pvalid propResult then console
                                   else console @ [''  All properties valid'']);
                        console = console @ [''Validating filter types...''];
                        flt = logic_filter logic;
                        console = console @
                          [''  String filters: '' @ join_or_none (extractStringFilterTypes flt),
                           ''  Numeric filters: '' @ join_or_none (extractNumericFilterTypes flt),
                           ''  Null filters: '' @ join_or_none (extractNullFilterTypes flt)];
                        filterResult = validateFilterTypes logic (validation config);
                        result = result\<lparr> filterErrors := ferrors filterResult,
                                         filterWarnings := fwarnings filterResult \<rparr>;
                        result = (if \<not> fvalid filterResult then result\<lparr> full_valid := False \<rparr>
                                  else result);
                        console =
                          (if \<not> fvalid filterResult then console
                           else if length (fwarnings filterResult) > 0
                           then console @ [''  Filter types valid (with warnings)'']
                           else console @ [''  All filter types valid''])
                    in (Inr result, console))"

definition performFullValidation ::
  "json option \<Rightarrow> ResolvedConfig \<Rightarrow> string list \<Rightarrow> (error + FullValidationResult) \<times> string list" where
  "performFullValidation logic config console =
     (let result = \<lparr> full_valid = True, structureErrors = [], propertyErrors = [],
                      filterErrors = [], filterWarnings = [] \<rparr>;
          console = console @ [''Validating structure...'']
      in case validateRuleLogic logic (validation config) of
           Inl e \<Rightarrow> (Inl e, console)
         | Inr structureResult \<Rightarrow>
             let result = result\<lparr> structureErrors := errors structureResult \<rparr>
             in if \<not> valid structureResult
                then (Inr (result\<lparr> full_valid := False \<rparr>), console)
                else
                  let console = console @ [''  Structure valid''];
                      actualRid = extractWorkflowRid logic;
                      result =
                        (if truthy (Some actualRid)
                            \<and> actualRid \<noteq> JStr (workflowRid (workflow config))
                         then result\<lparr> structureErrors := structureErrors result @
                                  [''workflowRid mismatch: config expects ''
                                     @ CHR 0x27 # workflowRid (workflow config)
                                     @ CHR 0x27 # '', got '' @ CHR 0x27 # ToString actualRid
                                     @ [CHR 0x27]],
                                full_valid := False \<rparr>
                         else result);
                      actualObjType = extractObjectTypeId logic;
                      result =
                        (if truthy (Some actualObjType)
                            \<and> actualObjType \<noteq> JStr (object_type_id (objectType (workflow config)))
                         then result\<lparr> structureErrors := structureErrors result @
                                  [''objectTypeId mismatch: config expects ''
                                     @ CHR 0x27 # object_type_id (objectType (workflow config))
                                     @ CHR 0x27 # '', got '' @ CHR 0x27 # ToString actualObjType
                                     @ [CHR 0x27]],
                                full_valid := False \<rparr>
                         else result)
                  in validate_passes logic config result console)"

section \<open>The JSON text of a value\<close>

text \<open>
  \<open>JSON.stringify\<close> and \<open>JSON.parse\<close> are the engine's; they are modelled here on the
  values of this theory, by the grammar of ECMA-404 without fractions and exponents.
\<close>

definition hex_digit :: "nat \<Rightarrow> char" where
  "hex_digit n = (if n < 10 then char_of (48 + n) else char_of (87 + n))"

text \<open>\<open>QuoteJSONString\<close>: the escapes of one code unit.\<close>

definition escape_char :: "char \<Rightarrow> string" where
  "escape_char c =
     (if c = CHR 0x22 then [CHR 0x5C, CHR 0x22]
      else if c = CHR 0x5C then [CHR 0x5C, CHR 0x5C]
      else if c = CHR 0x08 then [CHR 0x5C, CHR ''b'']
      else if c = CHR 0x0C then [CHR 0x5C, CHR ''f'']
      else if c = CHR 0x0A then [CHR 0x5C, CHR ''n'']
      else if c = CHR 0x0D then [CHR 0x5C, CHR ''r'']
      else if c = CHR 0x09 then [CHR 0x5C, CHR ''t'']
      else if (of_char c :: nat) < 0x20
      then [CHR 0x5C, CHR ''u'', CHR ''0'', CHR ''0'',
            hex_digit (of_char c div 16), hex_digit (of_char c mod 16)]
      else [c])"

definition quote :: "string \<Rightarrow> string" where
  "quote s = CHR 0x22 # concat (map escape_char s) @ [CHR 0x22]"

fun JSON_stringify :: "json \<Rightarrow> string" where
  "JSON_stringify JNull = ''null''"
| "JSON_stringify (JBool b) = (if b then ''true'' else ''false'')"
| "JSON_stringify (JNum n) = show_int n"
| "JSON_stringify (JStr s) = quote s"
| "JSON_stringify (JArr xs) = ''['' @ join '','' (map JSON_stringify xs) @ '']''"
| "JSON_stringify (JObj kvs) =
     ''{'' @ join '','' (map (\<lambda>(k, v). quote k @ '':'' @ JSON_stringify v) kvs) @ ''}''"

section \<open>Parsing JSON text\<close>

definition is_ws :: "char \<Rightarrow> bool" where
  "is_ws c \<longleftrightarrow> c = CHR 0x20 \<or> c = CHR 0x09 \<or> c = CHR 0x0A \<or> c = CHR 0x0D"

fun skip_ws :: "string \<Rightarrow> string" where
  "skip_ws [] = []"
| "skip_ws (c # cs) = (if is_ws c then skip_ws cs else c # cs)"

definition is_digit :: "char \<Rightarrow> bool" where
  "is_digit c \<longleftrightarrow> 48 \<le> (of_char c :: nat) \<and> (of_char c :: nat) \<le> 57"

definition digit_val :: "char \<Rightarrow> nat" where
  "digit_val c = of_char c - 48"

definition nat_of_digits :: "string \<Rightarrow> nat" where
  "nat_of_digits ds = foldl (\<lambda>n c. 10 * n + digit_val c) 0 ds"

definition hex_val :: "char \<Rightarrow> nat option" where
  "hex_val c =
     (let n = (of_char c :: nat)
      in if 48 \<le> n \<and> n \<le> 57 then Some (n - 48)
         else if 97 \<le> n \<and> n \<le> 102 then Some (n - 87)
         else if 65 \<le> n \<and> n \<le> 70 then Some (n - 55)
         else None)"

text \<open>The character an escape letter stands for.\<close>

definition unescape :: "char \<Rightarrow> char option" where
  "unescape e =
     (if e = CHR 0x22 then Some (CHR 0x22)
      else if e = CHR 0x5C then Some (CHR 0x5C)
      else if e = CHR ''/'' then Some (CHR ''/'')
      else if e = CHR ''b'' then Some (CHR 0x08)
      else if e = CHR ''f'' then Some (CHR 0x0C)
      else if e = CHR ''n'' then Some (CHR 0x0A)
      else if e = CHR ''r'' then Some (CHR 0x0D)
      else if e = CHR ''t'' then Some (CHR 0x09)
      else None)"

text \<open>
  The characters of a string after its opening quote, up to the closing one. A
  \<open>\u\<close> escape of a code unit above 255 is outside the strings of this theory.
\<close>

fun parse_chars :: "string \<Rightarrow> (string \<times> string) option" where
  "parse_chars [] = None"
| "parse_chars (c # cs) =
     (if c = CHR 0x22 then Some ([], cs)
      else if c = CHR 0x5C then
        (case cs of
           [] \<Rightarrow> None
         | e # cs1 \<Rightarrow>
             if e = CHR ''u'' then
               (case cs1 of
                  h1 # h2 # h3 # h4 # cs2 \<Rightarrow>
                    (case (hex_val h1, hex_val h2, hex_val h3, hex_val h4) of
                       (Some a, Some b, Some c, Some d) \<Rightarrow>
                         if a = 0 \<and> b = 0 then
                           (case parse_chars cs2 of
                              None \<Rightarrow> None
                            | Some (s, rest) \<Rightarrow> Some (char_of (16 * c + d) # s, rest))
                         else None
                     | _ \<Rightarrow> None)
                | _ \<Rightarrow> None)
             else
               (case unescape e of
                  None \<Rightarrow> None
                | Some c' \<Rightarrow>
                    (case parse_chars cs1 of
                       None \<Rightarrow> None
                     | Some (s, rest) \<Rightarrow> Some (c' # s, rest))))
      else if (of_char c :: nat) < 0x20 then None
      else (case parse_chars cs of
              None \<Rightarrow> None
            | Some (s, rest) \<Rightarrow> Some (c # s, rest)))"

text \<open>
  A number is an optional minus sign and an integer without leading zeros; a fraction
  or an exponent after it is outside the numbers of this theory.
\<close>

definition parse_number :: "string \<Rightarrow> (int \<times> string) option" where
  "parse_number s =
     (let neg = (s \<noteq> [] \<and> hd s = CHR ''-'');
          s1 = (if neg then tl s else s);
          ds = takeWhile is_digit s1;
          rest = dropWhile is_digit s1
      in if ds = [] \<or> (length ds > 1 \<and> hd ds = CHR ''0'') then None
         else if rest \<noteq> [] \<and> hd rest \<in> {CHR ''.'', CHR ''e'', CHR ''E''} then None
         else Some (if neg then - int (nat_of_digits ds) else int (nat_of_digits ds), rest))"

text \<open>
  The elements of an array or the members of an object, after the first one is known to
  be there: separated by commas, up to the closing bracket \<open>close\<close>. The fuel bounds the
  number of elements.
\<close>

fun parse_seq ::
  "nat \<Rightarrow> (string \<Rightarrow> ('a \<times> string) option) \<Rightarrow> char \<Rightarrow> string \<Rightarrow> ('a list \<times> string) option" where
  "parse_seq 0 p close s = None"
| "parse_seq (Suc k) p close s =
     (case p (skip_ws s) of
        None \<Rightarrow> None
      | Some (x, rest) \<Rightarrow>
          (case skip_ws rest of
             [] \<Rightarrow> None
           | c # rest1 \<Rightarrow>
               if c = close then Some ([x], rest1)
               else if c = CHR '','' then
                 (case parse_seq k p close rest1 of
                    None \<Rightarrow> None
                  | Some (xs, rest2) \<Rightarrow> Some (x # xs, rest2))
               else None))"

text \<open>A member of an object: a string, a colon and a value.\<close>

definition parse_member ::
  "(string \<Rightarrow> (json \<times> string) option) \<Rightarrow> string \<Rightarrow> ((string \<times> json) \<times> string) option" where
  "parse_member p s =
     (case s of
        [] \<Rightarrow> None
      | c # cs \<Rightarrow>
          if c = CHR 0x22 then
            (case parse_chars cs of
               None \<Rightarrow> None
             | Some (k, rest) \<Rightarrow>
                 (case skip_ws rest of
                    [] \<Rightarrow> None
                  | d # rest1 \<Rightarrow>
                      if d = CHR '':'' then
                        (case p (skip_ws rest1) of
                           None \<Rightarrow> None
                         | Some (v, rest2) \<Rightarrow> Some ((k, v), rest2))
                      else None))
          else None)"

text \<open>A later member replaces the value of an earlier one of the same name.\<close>

fun define_member :: "(string \<times> json) list \<Rightarrow> string \<times> json \<Rightarrow> (string \<times> json) list" where
  "define_member [] kv = [kv]"
| "define_member (m # ms) kv = (if fst m = fst kv then kv # ms else m # define_member ms kv)"

definition strip_prefix :: "string \<Rightarrow> string \<Rightarrow> string option" where
  "strip_prefix w s = (if take (length w) s = w then Some (drop (length w) s) else None)"

fun parse_value :: "nat \<Rightarrow> string \<Rightarrow> (json \<times> string) option" where
  "parse_value 0 s = None"
| "parse_value (Suc n) s =
     (case s of
        [] \<Rightarrow> None
      | c # cs \<Rightarrow>
          if c = CHR ''n'' then map_option (Pair JNull) (strip_prefix ''null'' s)
          else if c = CHR ''t'' then map_option (Pair (JBool True)) (strip_prefix ''true'' s)
          else if c = CHR ''f'' then map_option (Pair (JBool False)) (strip_prefix ''false'' s)
          else if c = CHR 0x22 then
            (case parse_chars cs of
               None \<Rightarrow> None
             | Some (str, rest) \<Rightarrow> Some (JStr str, rest))
          else if c = CHR ''['' then
            (case skip_ws cs of
               [] \<Rightarrow> None
             | d # rest \<Rightarrow>
                 if d = CHR '']'' then Some (JArr [], rest)
                 else (case parse_seq (length cs) (parse_value n) (CHR '']'') cs of
                         None \<Rightarrow> None
                       | Some (xs, rest1) \<Rightarrow> Some (JArr xs, rest1)))
          else if c = CHR ''{'' then
            (case skip_ws cs of
               [] \<Rightarrow> None
             | d # rest \<Rightarrow>
                 if d = CHR ''}'' then Some (JObj [], rest)
                 else (case parse_seq (length cs) (parse_member (parse_value n)) (CHR ''}'') cs of
                         None \<Rightarrow> None
                       | Some (ms, rest1) \<Rightarrow> Some (JObj (foldl define_member [] ms), rest1)))
          else (case parse_number s of
                  None \<Rightarrow> None
                | Some (i, rest) \<Rightarrow> Some (JNum i, rest)))"

definition JSON_parse :: "string \<Rightarrow> error + json" where
  "JSON_parse input =
     (case parse_value (length input) (skip_ws input) of
        None \<Rightarrow> Inl (SyntaxError ''Unexpected token in JSON'')
      | Some (v, rest) \<Rightarrow>
          if skip_ws rest = [] then Inr v
          else Inl (SyntaxError ''Unexpected token in JSON''))"

section \<open>Compression\<close>

text \<open>
  The codec is the library's (\<open>lz-string\<close>); the compressor is modelled over any codec.
  The decoder is given \<open>wrapper.compressedValue\<close>, whatever it is, and returns a string
  or \<open>null\<close> (\<open>None\<close>), or throws.
\<close>

record LZString =
  compressToEncodedURIComponent :: "string \<Rightarrow> string"
  decompressFromEncodedURIComponent :: "json option \<Rightarrow> error + string option"




definition getCompressedValue :: "string \<Rightarrow> error + json option" where
  "getCompressedValue compressedWrapper =
     (case JSON_parse compressedWrapper of
        Inl e \<Rightarrow> Inl e
      | Inr wrapper \<Rightarrow> get_strict ''compressedValue'' (Some wrapper))"

record CompressionStats =
  originalSize :: nat
  compressedSize :: nat
  ratio :: real

definition getCompressionStats :: "LZString \<Rightarrow> json \<Rightarrow> CompressionStats" where
  "getCompressionStats lz logic =
     (let original = JSON_stringify logic;
          compressed = compressToEncodedURIComponent lz original
      in \<lparr> originalSize = length original,
           compressedSize = length compressed,
           ratio = real (length compressed) / real (length original) \<rparr>)"

section \<open>Template builder\<close>

definition DEFAULT_MACRO :: json where
  "DEFAULT_MACRO =
     JObj [(''function'', JStr ''VALUE''), (''inputType'', JStr ''ALL_TYPES''),
           (''outputType'', JStr ''ALL_TYPES'')]"

text \<open>
  The builders are called with parameters read from a \<open>Record<string, unknown>\<close> and
  cast without a check, so a property id, a value or a bound is any value.
\<close>

definition column_of :: "string \<Rightarrow> json \<Rightarrow> json" where
  "column_of objectTypeId propertyId =
     JObj [(''objectProperty'',
              JObj [(''objectTypeId'', JStr objectTypeId), (''propertyTypeId'', propertyId)]),
           (''type'', JStr ''objectProperty'')]"

definition buildStringEqualsFilter :: "string \<Rightarrow> json \<Rightarrow> json \<Rightarrow> json \<Rightarrow> json" where
  "buildStringEqualsFilter objectTypeId propertyId val caseSensitive =
     JObj [(''columnFilterRule'',
              JObj [(''column'', column_of objectTypeId propertyId),
                    (''filter'',
                       JObj [(''stringColumnFilter'',
                                JObj [(''type'', JStr ''EQUALS''),
                                      (''caseSensitive'', caseSensitive),
                                      (''ignoreWhitespace'', JBool False),
                                      (''values'', JArr [val]),
                                      (''macro'', DEFAULT_MACRO)]),
                             (''type'', JStr ''stringColumnFilter'')])]),
           (''type'', JStr ''columnFilterRule'')]"

definition buildStringOrFilter :: "string \<Rightarrow> json \<Rightarrow> json list \<Rightarrow> json \<Rightarrow> json" where
  "buildStringOrFilter objectTypeId propertyId vals caseSensitive =
     (let filters = map (\<lambda>val. buildStringEqualsFilter objectTypeId propertyId val caseSensitive) vals
      in JObj [(''orFilterRule'', JObj [(''filters'', JArr filters)]),
               (''type'', JStr ''orFilterRule'')])"

definition buildNumericFilter :: "string \<Rightarrow> json \<Rightarrow> string \<Rightarrow> json \<Rightarrow> json" where
  "buildNumericFilter objectTypeId propertyId comparison val =
     JObj [(''columnFilterRule'',
              JObj [(''column'', column_of objectTypeId propertyId),
                    (''filter'',
                       JObj [(''numericColumnFilter'',
                                JObj [(''type'', JStr comparison),
                                      (''values'', JArr [val]),
                                      (''macro'', DEFAULT_MACRO)]),
                             (''type'', JStr ''numericColumnFilter'')])]),
           (''type'', JStr ''columnFilterRule'')]"

definition buildNumericRangeFilter ::
  "string \<Rightarrow> json \<Rightarrow> json option \<Rightarrow> json option \<Rightarrow> error + json" where
  "buildNumericRangeFilter objectTypeId propertyId min_opt max_opt =
     (let filters = [];
          filters =
            (case min_opt of
               None \<Rightarrow> filters
             | Some mn \<Rightarrow>
                 filters @ [buildNumericFilter objectTypeId propertyId ''GREATER_THAN_OR_EQUAL'' mn]);
          filters =
            (case max_opt of
               None \<Rightarrow> filters
             | Some mx \<Rightarrow>
                 filters @ [buildNumericFilter objectTypeId propertyId ''LESS_THAN_OR_EQUAL'' mx])
      in if length filters = 0
         then Inl (Error ''Numeric range filter requires at least min or max'')
         else if length filters = 1 then Inr (hd filters)
         else Inr (JObj [(''andFilterRule'', JObj [(''filters'', JArr filters)]),
                         (''type'', JStr ''andFilterRule'')]))"

definition buildNullFilter :: "string \<Rightarrow> json \<Rightarrow> json \<Rightarrow> json" where
  "buildNullFilter objectTypeId propertyId isNull =
     JObj [(''columnFilterRule'',
              JObj [(''column'', column_of objectTypeId propertyId),
                    (''filter'',
                       JObj [(''nullColumnFilter'',
                                JObj [(''type'',
                                        JStr (if truthy (Some isNull) then ''NULL'' else ''NOT_NULL''))]),
                             (''type'', JStr ''nullColumnFilter'')])]),
           (''type'', JStr ''columnFilterRule'')]"

definition wrapFilterAsRuleLogic :: "json \<Rightarrow> WorkflowDefinition \<Rightarrow> json" where
  "wrapFilterAsRuleLogic flt wfl =
     JObj [(''namedStrategies'', JObj []),
           (''strategyComponents'', JNull),
           (''grammarVersion'', JStr ''V1''),
           (''strategy'',
              JObj [(''filterNode'',
                       JObj [(''nodeInput'',
                                JObj [(''source'',
                                         JObj [(''objectTypeId'', JStr (object_type_id (objectType wfl))),
                                               (''type'', JStr ''objectTypeId'')]),
                                      (''type'', JStr ''source'')]),
                             (''filter'', flt),
                             (''joinFilterInputs'', JObj [])]),
                    (''type'', JStr ''filterNode'')]),
           (''workflowRid'', JStr (workflowRid wfl)),
           (''effect'',
              JObj [(''v2'',
                       JObj [(''outputAndVersion'',
                                JObj [(''outputId'', JStr (output_id (workflow_output wfl))),
                                      (''outputVersion'', JStr (output_version (workflow_output wfl))),
                                      (''workflowRid'', JStr (workflowRid wfl))]),
                             (''parameterValues'', JObj [])]),
                    (''type'', JStr ''v2'')])]"

record BuildResult =
  success :: bool
  logic :: "json option"
  build_errors :: "string list option"

text \<open>\<open>x ?? d\<close>: the default for \<open>null\<close> and \<open>undefined\<close> only.\<close>

fun nullish_or :: "json option \<Rightarrow> json \<Rightarrow> json" where
  "nullish_or None d = d"
| "nullish_or (Some JNull) d = d"
| "nullish_or (Some v) d = v"

definition failed :: "string list \<Rightarrow> BuildResult" where
  "failed errs = \<lparr> success = False, logic = None, build_errors = Some errs \<rparr>"

definition built :: "json \<Rightarrow> WorkflowDefinition \<Rightarrow> BuildResult" where
  "built flt wfl =
     \<lparr> success = True, logic = Some (wrapFilterAsRuleLogic flt wfl), build_errors = None \<rparr>"

definition missing_propertyId :: "json option \<Rightarrow> string list" where
  "missing_propertyId propertyId =
     (if \<not> truthy propertyId then [''Missing required parameter: propertyId''] else [])"

definition buildFromTemplate ::
  "string \<Rightarrow> (string \<times> json) list \<Rightarrow> WorkflowDefinition \<Rightarrow> BuildResult" where
  "buildFromTemplate templateName params wfl =
     (let objectTypeId = object_type_id (objectType wfl);
          propertyId = map_of params ''propertyId''
      in
      if templateName = ''string-equals'' then
        (let val = map_of params ''value'';
             caseSensitive = nullish_or (map_of params ''caseSensitive'') (JBool False);
             errs = missing_propertyId propertyId;
             errs = (if \<not> truthy val then errs @ [''Missing required parameter: value''] else errs)
         in if length errs > 0 then failed errs
            else case (propertyId, val) of
                   (Some p, Some v) \<Rightarrow> built (buildStringEqualsFilter objectTypeId p v caseSensitive) wfl
                 | _ \<Rightarrow> failed errs)
      else if templateName = ''string-or'' then
        (let vals = map_of params ''values'';
             caseSensitive = nullish_or (map_of params ''caseSensitive'') (JBool False);
             errs = missing_propertyId propertyId;
             errs = (if \<not> truthy vals \<or> \<not> isArray vals \<or> vals = Some (JArr [])
                     then errs @ [''Missing or empty required parameter: values''] else errs)
         in if length errs > 0 then failed errs
            else case (propertyId, vals) of
                   (Some p, Some (JArr vs)) \<Rightarrow> built (buildStringOrFilter objectTypeId p vs caseSensitive) wfl
                 | _ \<Rightarrow> failed errs)
      else if templateName = ''numeric-range'' then
        (let min_opt = map_of params ''min'';
             max_opt = map_of params ''max'';
             errs = missing_propertyId propertyId;
             errs = (if min_opt = None \<and> max_opt = None
                     then errs @ [''At least one of min or max is required''] else errs)
         in if length errs > 0 then failed errs
            else case propertyId of
                   Some p \<Rightarrow>
                     (case buildNumericRangeFilter objectTypeId p min_opt max_opt of
                        Inl e \<Rightarrow> failed [message e]
                      | Inr flt \<Rightarrow> built flt wfl)
                 | None \<Rightarrow> failed errs)
      else if templateName = ''null-check'' then
        (let isNull = nullish_or (map_of params ''isNull'') (JBool True);
             errs = missing_propertyId propertyId
         in if length errs > 0 then failed errs
            else case propertyId of
                   Some p \<Rightarrow> built (buildNullFilter objectTypeId p isNull) wfl
                 | None \<Rightarrow> failed errs)
      else failed [''Unknown template: '' @ templateName])"

section \<open>Properties of the template builder\<close>

definition example_workflow :: WorkflowDefinition where
  "example_workflow =
     \<lparr> workflow_name = ''demo'', workflowRid = ''ri.workflow.demo'',
       objectType = \<lparr> object_type_id = ''demo.product'', dynamicLookup = False,
                      properties = [\<lparr> prop_id = ''property_a'', prop_type = ''string'' \<rparr>,
                                    \<lparr> prop_id = ''property_b'', prop_type = ''number'' \<rparr>,
                                    \<lparr> prop_id = ''property_c'', prop_type = ''string'' \<rparr>] \<rparr>,
       workflow_output = \<lparr> output_id = ''out'', output_version = ''1.0'' \<rparr> \<rparr>"

text \<open>The comparison operator of a numeric column filter node.\<close>

definition comparison_of :: "json \<Rightarrow> json option" where
  "comparison_of node =
     getq ''type'' (getq ''numericColumnFilter'' (getq ''filter'' (get ''columnFilterRule'' node)))"

lemma numeric_leaf_shape:
  "get ''type'' (buildNumericFilter oid p cmp v) = Some (JStr ''columnFilterRule'')
   \<and> get ''andFilterRule'' (buildNumericFilter oid p cmp v) = None
   \<and> get ''orFilterRule'' (buildNumericFilter oid p cmp v) = None
   \<and> get ''notFilterRule'' (buildNumericFilter oid p cmp v) = None
   \<and> comparison_of (buildNumericFilter oid p cmp v) = Some (JStr cmp)"
  by (simp add: buildNumericFilter_def comparison_of_def)

lemma range_min_only:
  "buildNumericRangeFilter oid p (Some mn) None
     = Inr (buildNumericFilter oid p ''GREATER_THAN_OR_EQUAL'' mn)"
  by (simp add: buildNumericRangeFilter_def)

lemma range_max_only:
  "buildNumericRangeFilter oid p None (Some mx)
     = Inr (buildNumericFilter oid p ''LESS_THAN_OR_EQUAL'' mx)"
  by (simp add: buildNumericRangeFilter_def)

lemma range_both:
  "buildNumericRangeFilter oid p (Some mn) (Some mx)
     = Inr (JObj [(''andFilterRule'',
                     JObj [(''filters'',
                              JArr [buildNumericFilter oid p ''GREATER_THAN_OR_EQUAL'' mn,
                                    buildNumericFilter oid p ''LESS_THAN_OR_EQUAL'' mx])]),
                  (''type'', JStr ''andFilterRule'')])"
  by (simp add: buildNumericRangeFilter_def)

lemma range_defined:
  "mn \<noteq> None \<or> mx \<noteq> None \<Longrightarrow> \<exists>f. buildNumericRangeFilter oid p mn mx = Inr f"
  by (cases mn; cases mx) (simp_all add: buildNumericRangeFilter_def)

lemma template_numeric_range:
  assumes "map_of params ''propertyId'' = Some p" and "truthy (Some p)"
    and "buildNumericRangeFilter (object_type_id (objectType wfl)) p
           (map_of params ''min'') (map_of params ''max'') = Inr f"
  shows "buildFromTemplate ''numeric-range'' params wfl = built f wfl"
proof -
  have "map_of params ''min'' \<noteq> None \<or> map_of params ''max'' \<noteq> None"
    using assms(3) by (auto simp: buildNumericRangeFilter_def Let_def split: option.splits)
  then show ?thesis
    using assms by (auto simp: buildFromTemplate_def missing_propertyId_def Let_def)
qed

text \<open>
  C2. A numeric range with only \<open>min\<close> is the single column filter leaf
  \<open>GREATER_THAN_OR_EQUAL\<close>, with only \<open>max\<close> the single leaf \<open>LESS_THAN_OR_EQUAL\<close>, and
  neither is a compound node; with both bounds it is an \<open>andFilterRule\<close> of exactly the
  two leaves, the lower bound first. This holds for every property id, and for the
  \<open>numeric-range\<close> template whenever the property id it is given is truthy.
\<close>

theorem numeric_range_shape:
  "(buildNumericRangeFilter oid p (Some mn) None
      = Inr (buildNumericFilter oid p ''GREATER_THAN_OR_EQUAL'' mn))
   \<and> (buildNumericRangeFilter oid p None (Some mx)
      = Inr (buildNumericFilter oid p ''LESS_THAN_OR_EQUAL'' mx))
   \<and> (buildNumericRangeFilter oid p (Some mn) (Some mx)
      = Inr (JObj [(''andFilterRule'',
                      JObj [(''filters'',
                               JArr [buildNumericFilter oid p ''GREATER_THAN_OR_EQUAL'' mn,
                                     buildNumericFilter oid p ''LESS_THAN_OR_EQUAL'' mx])]),
                   (''type'', JStr ''andFilterRule'')]))
   \<and> (get ''type'' (buildNumericFilter oid p cmp v) = Some (JStr ''columnFilterRule'')
      \<and> get ''andFilterRule'' (buildNumericFilter oid p cmp v) = None
      \<and> get ''orFilterRule'' (buildNumericFilter oid p cmp v) = None
      \<and> get ''notFilterRule'' (buildNumericFilter oid p cmp v) = None
      \<and> comparison_of (buildNumericFilter oid p cmp v) = Some (JStr cmp))
   \<and> (map_of params ''propertyId'' = Some p \<and> truthy (Some p)
        \<and> buildNumericRangeFilter (object_type_id (objectType wfl)) p
             (map_of params ''min'') (map_of params ''max'') = Inr f
      \<longrightarrow> buildFromTemplate ''numeric-range'' params wfl
            = \<lparr> success = True, logic = Some (wrapFilterAsRuleLogic f wfl), build_errors = None \<rparr>
          \<and> logic_filter (Some (wrapFilterAsRuleLogic f wfl)) = Some f)"
proof (intro conjI impI)
  assume h: "map_of params ''propertyId'' = Some p \<and> truthy (Some p)
        \<and> buildNumericRangeFilter (object_type_id (objectType wfl)) p
             (map_of params ''min'') (map_of params ''max'') = Inr f"
  then show "buildFromTemplate ''numeric-range'' params wfl
            = \<lparr> success = True, logic = Some (wrapFilterAsRuleLogic f wfl), build_errors = None \<rparr>"
    using template_numeric_range [of params p wfl f] by (simp add: built_def)
  show "logic_filter (Some (wrapFilterAsRuleLogic f wfl)) = Some f"
    by (simp add: logic_filter_def wrapFilterAsRuleLogic_def)
qed (simp_all add: range_min_only range_max_only range_both numeric_leaf_shape)

theorem numeric_range_shape_witness:
  "buildFromTemplate ''numeric-range'' [(''propertyId'', JStr ''price''), (''min'', JNum 10)]
     example_workflow
   = \<lparr> success = True,
       logic = Some (wrapFilterAsRuleLogic
                 (buildNumericFilter ''demo.product'' (JStr ''price'') ''GREATER_THAN_OR_EQUAL'' (JNum 10))
                 example_workflow),
       build_errors = None \<rparr>
   \<and> buildNumericRangeFilter ''demo.product'' (JStr ''price'') (Some (JNum 10)) (Some (JNum 100))
     = Inr (JObj [(''andFilterRule'',
                      JObj [(''filters'',
                               JArr [buildNumericFilter ''demo.product'' (JStr ''price'')
                                       ''GREATER_THAN_OR_EQUAL'' (JNum 10),
                                     buildNumericFilter ''demo.product'' (JStr ''price'')
                                       ''LESS_THAN_OR_EQUAL'' (JNum 100)])]),
                   (''type'', JStr ''andFilterRule'')])"
  using numeric_range_shape [of "''demo.product''" "JStr ''price''" "JNum 10" "JNum 100"
      "''GREATER_THAN_OR_EQUAL''" "JNum 10"
      "[(''propertyId'', JStr ''price''), (''min'', JNum 10)]" example_workflow
      "buildNumericFilter ''demo.product'' (JStr ''price'') ''GREATER_THAN_OR_EQUAL'' (JNum 10)"]
  by (simp add: example_workflow_def buildNumericRangeFilter_def)

text \<open>
  The errors a template collects before it builds anything: a falsy \<open>propertyId\<close>
  first, then the check of the template's own parameters.
\<close>

definition parameter_errors :: "string \<Rightarrow> (string \<times> json) list \<Rightarrow> string list" where
  "parameter_errors templateName params =
     (if \<not> truthy (map_of params ''propertyId'')
      then [''Missing required parameter: propertyId''] else [])
     @ (if templateName = ''string-equals'' \<and> \<not> truthy (map_of params ''value'')
        then [''Missing required parameter: value'']
        else if templateName = ''string-or''
                \<and> (\<not> truthy (map_of params ''values'') \<or> \<not> isArray (map_of params ''values'')
                     \<or> map_of params ''values'' = Some (JArr []))
        then [''Missing or empty required parameter: values'']
        else if templateName = ''numeric-range''
                \<and> map_of params ''min'' = None \<and> map_of params ''max'' = None
        then [''At least one of min or max is required'']
        else [])"

definition known_template :: "string \<Rightarrow> bool" where
  "known_template templateName \<longleftrightarrow>
     templateName \<in> {''string-equals'', ''string-or'', ''numeric-range'', ''null-check''}"

lemma values_check:
  "(\<not> truthy vals \<or> \<not> isArray vals \<or> vals = Some (JArr []))
     \<longleftrightarrow> (\<forall>vs. vals = Some (JArr vs) \<longrightarrow> vs = [])"
  by (cases vals rule: truthy.cases) auto

lemma template_fails:
  assumes "known_template templateName" and "parameter_errors templateName params \<noteq> []"
  shows "buildFromTemplate templateName params wfl
           = \<lparr> success = False, logic = None,
               build_errors = Some (parameter_errors templateName params) \<rparr>"
  using assms
  unfolding known_template_def
  apply (elim insertE emptyE)
  apply (auto simp: buildFromTemplate_def parameter_errors_def missing_propertyId_def
                failed_def Let_def split: if_splits)
  done

lemma template_builds:
  assumes "known_template templateName" and "parameter_errors templateName params = []"
  shows "success (buildFromTemplate templateName params wfl)
         \<and> logic (buildFromTemplate templateName params wfl) \<noteq> None
         \<and> build_errors (buildFromTemplate templateName params wfl) = None"
proof -
  obtain p where p: "map_of params ''propertyId'' = Some p" "truthy (Some p)"
    using assms(2)
    by (cases "map_of params ''propertyId''") (auto simp: parameter_errors_def split: if_splits)
  from assms(1) consider "templateName = ''string-equals''" | "templateName = ''string-or''"
    | "templateName = ''numeric-range''" | "templateName = ''null-check''"
    by (auto simp: known_template_def)
  then show ?thesis
  proof cases
    case 1
    with assms(2) obtain v where "map_of params ''value'' = Some v" "truthy (Some v)"
      by (cases "map_of params ''value''") (auto simp: parameter_errors_def split: if_splits)
    with 1 p show ?thesis
      by (simp add: buildFromTemplate_def missing_propertyId_def Let_def built_def)
  next
    case 2
    with assms(2) have "\<not> (\<forall>vs. map_of params ''values'' = Some (JArr vs) \<longrightarrow> vs = [])"
      unfolding values_check [symmetric] by (auto simp: parameter_errors_def split: if_splits)
    then obtain vs where "map_of params ''values'' = Some (JArr vs)" "vs \<noteq> []"
      by auto
    with 2 p show ?thesis
      by (simp add: buildFromTemplate_def missing_propertyId_def Let_def built_def)
  next
    case 3
    with assms(2) have bound: "map_of params ''min'' \<noteq> None \<or> map_of params ''max'' \<noteq> None"
      by (auto simp: parameter_errors_def split: if_splits)
    then obtain f where "buildNumericRangeFilter (object_type_id (objectType wfl)) p
        (map_of params ''min'') (map_of params ''max'') = Inr f"
      using range_defined by blast
    with 3 p bound show ?thesis
      by (auto simp: buildFromTemplate_def missing_propertyId_def Let_def built_def)
  next
    case 4
    with p show ?thesis
      by (simp add: buildFromTemplate_def missing_propertyId_def Let_def built_def)
  qed
qed

lemma template_unknown:
  "\<not> known_template templateName \<Longrightarrow>
     buildFromTemplate templateName params wfl
       = \<lparr> success = False, logic = None,
           build_errors = Some [''Unknown template: '' @ templateName] \<rparr>"
  by (simp add: known_template_def buildFromTemplate_def failed_def)

text \<open>
  C3, as amended. Every template checks all its parameters before it builds anything
  and collects every error, in the order of \<open>parameter_errors\<close>: a falsy \<open>propertyId\<close>
  gives \<open>Missing required parameter: propertyId\<close>, a falsy \<open>value\<close> of \<open>string-equals\<close>
  gives \<open>Missing required parameter: value\<close>, the \<open>values\<close> of \<open>string-or\<close> give
  \<open>Missing or empty required parameter: values\<close>, and \<open>numeric-range\<close> without a bound
  gives \<open>At least one of min or max is required\<close>. With an error the result is a failure
  holding exactly these errors and no logic; without one the logic is built. A name
  that is no template fails with \<open>Unknown template\<close>. In particular \<open>string-equals\<close>
  with only a value fails with exactly the one error for \<open>propertyId\<close>.
\<close>

theorem buildFromTemplate_parameter_validation:
  "(known_template templateName \<and> parameter_errors templateName params \<noteq> []
      \<longrightarrow> buildFromTemplate templateName params wfl
            = \<lparr> success = False, logic = None,
                build_errors = Some (parameter_errors templateName params) \<rparr>)
   \<and> (known_template templateName \<and> parameter_errors templateName params = []
      \<longrightarrow> success (buildFromTemplate templateName params wfl)
          \<and> logic (buildFromTemplate templateName params wfl) \<noteq> None
          \<and> build_errors (buildFromTemplate templateName params wfl) = None)
   \<and> (\<not> known_template templateName
      \<longrightarrow> buildFromTemplate templateName params wfl
            = \<lparr> success = False, logic = None,
                build_errors = Some [''Unknown template: '' @ templateName] \<rparr>)
   \<and> buildFromTemplate ''string-equals'' [(''value'', JStr ''test'')] wfl
       = \<lparr> success = False, logic = None,
           build_errors = Some [''Missing required parameter: propertyId''] \<rparr>"
proof (intro conjI impI)
  show "buildFromTemplate ''string-equals'' [(''value'', JStr ''test'')] wfl
       = \<lparr> success = False, logic = None,
           build_errors = Some [''Missing required parameter: propertyId''] \<rparr>"
    by (simp add: buildFromTemplate_def missing_propertyId_def failed_def Let_def)
qed (simp_all add: template_fails template_builds template_unknown)

theorem buildFromTemplate_parameter_validation_witness:
  "known_template ''string-equals'' \<and> parameter_errors ''string-equals'' [] \<noteq> []
   \<and> buildFromTemplate ''string-equals'' [] example_workflow
       = \<lparr> success = False, logic = None,
           build_errors = Some [''Missing required parameter: propertyId'',
                                ''Missing required parameter: value''] \<rparr>
   \<and> known_template ''null-check''
   \<and> parameter_errors ''null-check'' [(''propertyId'', JStr ''name'')] = []
   \<and> success (buildFromTemplate ''null-check'' [(''propertyId'', JStr ''name'')] example_workflow)
   \<and> \<not> known_template ''unknown-template''
   \<and> buildFromTemplate ''unknown-template'' [] example_workflow
       = \<lparr> success = False, logic = None,
           build_errors = Some [''Unknown template: unknown-template''] \<rparr>"
  using buildFromTemplate_parameter_validation [of "''string-equals''" "[]" example_workflow]
    buildFromTemplate_parameter_validation
      [of "''null-check''" "[(''propertyId'', JStr ''name'')]" example_workflow]
    buildFromTemplate_parameter_validation [of "''unknown-template''" "[]" example_workflow]
  by (simp add: known_template_def parameter_errors_def)

text \<open>
  The claim as stated fails: a missing \<open>values\<close> is reported with a message that is
  not of the shape \<open>Missing required parameter: <name>\<close>.
\<close>

theorem missing_values_message_counterexample:
  "build_errors (buildFromTemplate ''string-or'' [(''propertyId'', JStr ''status'')] example_workflow)
     = Some [''Missing or empty required parameter: values'']
   \<and> ''Missing or empty required parameter: values'' \<noteq> ''Missing required parameter: '' @ ''values''
   \<and> \<not> prefix ''Missing required parameter: '' ''Missing or empty required parameter: values''"
  by (simp add: buildFromTemplate_def missing_propertyId_def failed_def Let_def)

text \<open>
  C9, as amended. In \<open>string-or\<close>, a \<open>values\<close> parameter that is an empty array and one
  that is missing give the same error, \<open>Missing or empty required parameter: values\<close>,
  after the error for a falsy \<open>propertyId\<close> if there is one; this message differs from
  the \<open>Missing required parameter: <name>\<close> messages of the other parameters.
\<close>

theorem empty_or_missing_values_error:
  assumes "map_of params ''values'' = None \<or> map_of params ''values'' = Some (JArr [])"
  shows "buildFromTemplate ''string-or'' params wfl
           = \<lparr> success = False, logic = None,
               build_errors =
                 Some ((if \<not> truthy (map_of params ''propertyId'')
                        then [''Missing required parameter: propertyId''] else [])
                       @ [''Missing or empty required parameter: values'']) \<rparr>
         \<and> ''Missing or empty required parameter: values'' \<noteq> ''Missing required parameter: values''"
proof -
  have e: "parameter_errors ''string-or'' params
             = (if \<not> truthy (map_of params ''propertyId'')
                then [''Missing required parameter: propertyId''] else [])
               @ [''Missing or empty required parameter: values'']"
    using assms by (auto simp: parameter_errors_def)
  have "known_template ''string-or''"
    by (simp add: known_template_def)
  moreover have "parameter_errors ''string-or'' params \<noteq> []"
    using e by simp
  ultimately show ?thesis
    using template_fails [of "''string-or''" params wfl] e by simp
qed

theorem empty_or_missing_values_error_witness:
  "map_of [(''propertyId'', JStr ''status''), (''values'', JArr [])] ''values'' = Some (JArr [])
   \<and> buildFromTemplate ''string-or'' [(''propertyId'', JStr ''status''), (''values'', JArr [])]
        example_workflow
      = \<lparr> success = False, logic = None,
          build_errors = Some [''Missing or empty required parameter: values''] \<rparr>"
  using empty_or_missing_values_error
    [of "[(''propertyId'', JStr ''status''), (''values'', JArr [])]" example_workflow]
  by simp

text \<open>
  The claim as stated fails: the empty array and the missing parameter yield the same
  error string.
\<close>

theorem empty_values_same_error_counterexample:
  "build_errors (buildFromTemplate ''string-or''
       [(''propertyId'', JStr ''status''), (''values'', JArr [])] example_workflow)
   = build_errors (buildFromTemplate ''string-or''
       [(''propertyId'', JStr ''status'')] example_workflow)"
  by (simp add: buildFromTemplate_def missing_propertyId_def failed_def Let_def)

section \<open>Properties of the extractor and of the property pass\<close>

declare extractPropertiesFromFilter.simps [simp del]

lemma set_set_add: "set (set_add x s) = insert x (set s)"
proof (cases "\<exists>y \<in> set s. sameValueZero x y")
  case True
  then obtain y where "y \<in> set s" "sameValueZero x y" by blast
  then have "x \<in> set s" by (cases x) auto
  with True show ?thesis by (auto simp: set_add_def)
next
  case False
  then show ?thesis by (auto simp: set_add_def)
qed

lemma set_add_all: "set (add_all xs s) = set xs \<union> set s"
  unfolding add_all_def by (induction xs arbitrary: s) (auto simp: set_set_add)

lemma set_fold_add_all:
  "set (fold (\<lambda>sub ps. add_all (g sub) ps) fs s) = set s \<union> (\<Union>sub \<in> set fs. set (g sub))"
  by (induction fs arbitrary: s) (auto simp: set_add_all)

text \<open>The sub-filters of a compound node, and the property of a column filter node.\<close>

definition sub_filters :: "string \<Rightarrow> json \<Rightarrow> json list" where
  "sub_filters key f =
     (case get key f of
        Some rule \<Rightarrow> (case get ''filters'' rule of Some (JArr fs) \<Rightarrow> fs | _ \<Rightarrow> [])
      | None \<Rightarrow> [])"

definition negated_filter :: "json \<Rightarrow> json option" where
  "negated_filter f = (case get ''notFilterRule'' f of Some rule \<Rightarrow> get ''filter'' rule | None \<Rightarrow> None)"

definition column_property :: "json \<Rightarrow> json option" where
  "column_property f =
     (case get ''columnFilterRule'' f of
        Some rule \<Rightarrow>
          (case getq ''propertyTypeId'' (getq ''objectProperty'' (get ''column'' rule)) of
             Some p \<Rightarrow> if truthy (Some p) then Some p else None
           | None \<Rightarrow> None)
      | None \<Rightarrow> None)"

lemma getq_Some: "getq k (Some v) = get k v"
  by (cases v) simp_all

lemma get_Some_obj: "get k f = Some v \<Longrightarrow> truthy (Some f) \<and> typeof_object (Some f)"
  by (cases f) auto

lemma get_falsy_None: "get k v = Some w \<Longrightarrow> \<not> truthy (Some v) \<Longrightarrow> False"
  by (cases v) auto

lemma not_obj_get: "\<not> truthy (Some f) \<or> \<not> typeof_object (Some f) \<Longrightarrow> get k f = None"
  by (cases f) auto

lemma column_step_set:
  "set (case get ''columnFilterRule'' f of
          None \<Rightarrow> ps
        | Some rule \<Rightarrow>
            if truthy (Some rule) then
              (if truthy (getq ''propertyTypeId'' (getq ''objectProperty'' (get ''column'' rule)))
               then set_add (the (getq ''propertyTypeId''
                                    (getq ''objectProperty'' (get ''column'' rule)))) ps
               else ps)
            else ps)
   = set ps \<union> set_option (column_property f)"
proof (cases "get ''columnFilterRule'' f")
  case None
  then show ?thesis by (simp add: column_property_def)
next
  case (Some rule)
  show ?thesis
  proof (cases "getq ''propertyTypeId'' (getq ''objectProperty'' (get ''column'' rule))")
    case None
    with Some show ?thesis by (simp add: column_property_def)
  next
    case (Some p)
    then have "rule \<noteq> JNull \<and> truthy (Some rule)"
      by (cases rule) auto
    with Some \<open>get ''columnFilterRule'' f = Some rule\<close> show ?thesis
      by (simp add: column_property_def set_set_add)
  qed
qed

lemma compound_step_set:
  "set (case get key f of
          None \<Rightarrow> ps
        | Some rule \<Rightarrow>
            if truthy (Some rule) then
              (case get ''filters'' rule of
                 Some (JArr filters) \<Rightarrow> fold (\<lambda>subFilter ps. add_all (h subFilter) ps) filters ps
               | _ \<Rightarrow> ps)
            else ps)
   = set ps \<union> (\<Union>sub \<in> set (sub_filters key f). set (h sub))"
proof (cases "get key f")
  case None
  then show ?thesis by (simp add: sub_filters_def)
next
  case (Some rule)
  show ?thesis
  proof (cases "get ''filters'' rule")
    case None
    with Some show ?thesis by (simp add: sub_filters_def)
  next
    case (Some fs)
    then have "truthy (Some rule)" by (cases rule) auto
    with Some \<open>get key f = Some rule\<close> show ?thesis
      by (cases fs) (simp_all add: sub_filters_def set_fold_add_all)
  qed
qed

lemma not_step_set:
  "set (case get ''notFilterRule'' f of
          None \<Rightarrow> ps
        | Some rule \<Rightarrow> if truthy (Some rule) then add_all (g (get ''filter'' rule)) ps else ps)
   = set ps \<union> (if truthy (get ''notFilterRule'' f) then set (g (negated_filter f)) else {})"
  by (cases "get ''notFilterRule'' f") (auto simp: negated_filter_def set_add_all)

lemma negated_filter_falsy:
  "\<not> truthy (get ''notFilterRule'' f) \<Longrightarrow> negated_filter f = None"
proof (cases "get ''notFilterRule'' f")
  case None
  then show ?thesis by (simp add: negated_filter_def)
next
  case (Some rule)
  assume "\<not> truthy (get ''notFilterRule'' f)"
  with Some have "get ''filter'' rule = None"
    by (cases rule) auto
  with Some show ?thesis by (simp add: negated_filter_def)
qed

lemma extract_set_unfold:
  "set (extractPropertiesFromFilter (Some f))
     = set_option (column_property f)
       \<union> (\<Union>sub \<in> set (sub_filters ''orFilterRule'' f). set (extractPropertiesFromFilter (Some sub)))
       \<union> (\<Union>sub \<in> set (sub_filters ''andFilterRule'' f). set (extractPropertiesFromFilter (Some sub)))
       \<union> set (extractPropertiesFromFilter (negated_filter f))"
proof (cases "\<not> truthy (Some f) \<or> \<not> typeof_object (Some f)")
  case True
  then have none: "get k f = None" for k by (rule not_obj_get)
  have "extractPropertiesFromFilter (Some f) = []"
    using True by (simp only: extractPropertiesFromFilter.simps(2) [of f] if_True)
  then show ?thesis
    by (simp add: column_property_def sub_filters_def negated_filter_def none
          extractPropertiesFromFilter.simps(1))
next
  case False
  have "set (extractPropertiesFromFilter (Some f))
     = set_option (column_property f)
       \<union> (\<Union>sub \<in> set (sub_filters ''orFilterRule'' f). set (extractPropertiesFromFilter (Some sub)))
       \<union> (\<Union>sub \<in> set (sub_filters ''andFilterRule'' f). set (extractPropertiesFromFilter (Some sub)))
       \<union> (if truthy (get ''notFilterRule'' f)
          then set (extractPropertiesFromFilter (negated_filter f)) else {})"
    using False
    apply (simp only: extractPropertiesFromFilter.simps(2) [of f] if_False)
    apply (simp only: Let_def not_step_set compound_step_set column_step_set)
    apply simp
    done
  then show ?thesis
    by (auto simp: negated_filter_falsy extractPropertiesFromFilter.simps(1))
qed


text \<open>
  The property ids a filter tree references: the property of a column filter node, and
  the ids referenced by a sub-filter of an \<open>or\<close>, an \<open>and\<close> or a \<open>not\<close> node.
\<close>

inductive references :: "json \<Rightarrow> json \<Rightarrow> bool" where
  in_column: "column_property f = Some p \<Longrightarrow> references f p"
| in_or: "sub \<in> set (sub_filters ''orFilterRule'' f) \<Longrightarrow> references sub p \<Longrightarrow> references f p"
| in_and: "sub \<in> set (sub_filters ''andFilterRule'' f) \<Longrightarrow> references sub p \<Longrightarrow> references f p"
| in_not: "negated_filter f = Some sub \<Longrightarrow> references sub p \<Longrightarrow> references f p"

lemma sub_filters_cases:
  "sub \<in> set (sub_filters key f) \<Longrightarrow>
     \<exists>rule fs. get key f = Some rule \<and> get ''filters'' rule = Some (JArr fs) \<and> sub \<in> set fs"
proof (cases "get key f")
  case None
  then show "sub \<in> set (sub_filters key f) \<Longrightarrow> ?thesis"
    by (simp add: sub_filters_def)
next
  case (Some rule)
  assume a: "sub \<in> set (sub_filters key f)"
  show ?thesis
  proof (cases "get ''filters'' rule")
    case None
    with Some a show ?thesis by (simp add: sub_filters_def)
  next
    case inner: (Some v)
    with Some a show ?thesis by (cases v) (simp_all add: sub_filters_def)
  qed
qed

lemma size_sub_filters: "sub \<in> set (sub_filters key f) \<Longrightarrow> size sub < size f"
proof -
  assume a: "sub \<in> set (sub_filters key f)"
  then obtain rule fs where r: "get key f = Some rule" "get ''filters'' rule = Some (JArr fs)"
      "sub \<in> set fs"
    using sub_filters_cases by blast
  have "size sub < size (JArr fs)" using r(3) by (simp add: size_elem)
  also have "\<dots> < size rule" using r(2) by (rule size_get)
  also have "\<dots> < size f" using r(1) by (rule size_get)
  finally show ?thesis .
qed

lemma size_negated_filter: "negated_filter f = Some sub \<Longrightarrow> size sub < size f"
proof -
  assume "negated_filter f = Some sub"
  then have "\<exists>rule. get ''notFilterRule'' f = Some rule \<and> get ''filter'' rule = Some sub"
    by (cases "get ''notFilterRule'' f") (simp_all add: negated_filter_def)
  then obtain rule where r: "get ''notFilterRule'' f = Some rule" "get ''filter'' rule = Some sub"
    by blast
  have "size sub < size rule" using r(2) by (rule size_get)
  also have "\<dots> < size f" using r(1) by (rule size_get)
  finally show ?thesis .
qed

lemma extracted_is_referenced:
  "p \<in> set (extractPropertiesFromFilter (Some f)) \<Longrightarrow> references f p"
proof (induction f rule: measure_induct_rule [of size])
  case (less f)
  from less.prems consider
      (col) "column_property f = Some p"
    | (disj) sub where "sub \<in> set (sub_filters ''orFilterRule'' f)"
        "p \<in> set (extractPropertiesFromFilter (Some sub))"
    | (conj) sub where "sub \<in> set (sub_filters ''andFilterRule'' f)"
        "p \<in> set (extractPropertiesFromFilter (Some sub))"
    | (neg) "p \<in> set (extractPropertiesFromFilter (negated_filter f))"
    unfolding extract_set_unfold [of f] by (cases "column_property f") auto
  then show ?case
  proof cases
    case col
    then show ?thesis by (rule in_column)
  next
    case disj
    then show ?thesis using less.IH size_sub_filters in_or by blast
  next
    case conj
    then show ?thesis using less.IH size_sub_filters in_and by blast
  next
    case neg
    then obtain sub where s: "negated_filter f = Some sub"
      by (cases "negated_filter f") (auto simp: extractPropertiesFromFilter.simps(1))
    with neg less.IH size_negated_filter in_not show ?thesis by metis
  qed
qed

lemma referenced_is_extracted:
  "references f p \<Longrightarrow> p \<in> set (extractPropertiesFromFilter (Some f))"
proof (induction rule: references.induct)
  case (in_column f p)
  then show ?case unfolding extract_set_unfold [of f] by simp
next
  case (in_or sub f p)
  then show ?case unfolding extract_set_unfold [of f] by blast
next
  case (in_and sub f p)
  then show ?case unfolding extract_set_unfold [of f] by blast
next
  case (in_not f sub p)
  then show ?case unfolding extract_set_unfold [of f] by simp
qed

lemma extract_references:
  "set (extractPropertiesFromFilter (Some f)) = {p. references f p}"
  using extracted_is_referenced referenced_is_extracted by blast


text \<open>Primitive values are kept once in a set of values.\<close>

fun primitive :: "json \<Rightarrow> bool" where
  "primitive (JArr xs) = False"
| "primitive (JObj kvs) = False"
| "primitive v = True"

definition once :: "json list \<Rightarrow> bool" where
  "once s \<longleftrightarrow> distinct (filter primitive s)"

lemma once_Nil: "once []"
  by (simp add: once_def)

lemma once_set_add: "once s \<Longrightarrow> once (set_add x s)"
proof (cases "\<exists>y \<in> set s. sameValueZero x y")
  case True
  then show "once s \<Longrightarrow> ?thesis" by (simp add: set_add_def)
next
  case False
  assume s: "once s"
  have "x \<notin> set s" if "primitive x"
  proof
    assume "x \<in> set s"
    moreover have "sameValueZero x x" using that by (cases x) auto
    ultimately show False using False by blast
  qed
  with s False show ?thesis by (auto simp: set_add_def once_def)
qed

lemma once_add_all: "once s \<Longrightarrow> once (add_all xs s)"
  unfolding add_all_def by (induction xs arbitrary: s) (auto simp: once_set_add)

lemma once_add_if_truthy: "once s \<Longrightarrow> once (add_if_truthy x s)"
  by (simp add: add_if_truthy_def once_set_add)

lemma once_fold:
  "(\<And>x s. once s \<Longrightarrow> once (step x s)) \<Longrightarrow> once s \<Longrightarrow> once (fold step xs s)"
  by (induction xs arbitrary: s) auto

lemma once_for_each:
  assumes body: "\<And>x s s'. once s \<Longrightarrow> body x s = Inr s' \<Longrightarrow> once s'"
  shows "once s \<Longrightarrow> for_each body xs s = Inr s' \<Longrightarrow> once s'"
proof (induction xs arbitrary: s)
  case Nil
  then show ?case by simp
next
  case (Cons x xs)
  from Cons.prems(2) obtain s1 where s1: "body x s = Inr s1" "for_each body xs s1 = Inr s'"
    by (cases "body x s") auto
  have "once s1" using body [OF Cons.prems(1) s1(1)] .
  then show ?case using Cons.IH s1(2) by blast
qed

lemma once_columns_loop:
  assumes body: "\<And>x s s'. once s \<Longrightarrow> body x s = Inr s' \<Longrightarrow> once s'"
    and "once s" and "columns_loop body xs s = Inr s'"
  shows "once s'"
proof (cases xs)
  case None
  with assms(2,3) show ?thesis by (simp add: columns_loop_def)
next
  case (Some v)
  with assms(2,3) show ?thesis
    by (cases v) (auto simp: columns_loop_def intro: once_for_each [OF body])
qed

lemma once_add_column_definition:
  "once s \<Longrightarrow> add_column_definition key col s = Inr s' \<Longrightarrow> once s'"
  by (auto simp: add_column_definition_def once_add_if_truthy split: sum.splits)

lemma once_add_group_by_column:
  "once s \<Longrightarrow> add_group_by_column col s = Inr s' \<Longrightarrow> once s'"
  by (auto simp: add_group_by_column_def once_add_if_truthy split: sum.splits)

lemma once_window: "extractPropertiesFromWindowNode node = Inr ps \<Longrightarrow> once ps"
proof (cases node)
  case None
  then show "extractPropertiesFromWindowNode node = Inr ps \<Longrightarrow> ?thesis"
    by (simp add: extractPropertiesFromWindowNode_def once_Nil)
next
  case (Some n)
  assume a: "extractPropertiesFromWindowNode node = Inr ps"
  show ?thesis
  proof (cases "\<not> truthy node \<or> \<not> typeof_object node")
    case True
    with a Some show ?thesis
      by (auto simp: extractPropertiesFromWindowNode_def once_Nil)
  next
    case False
    with a Some obtain qs where
      q: "columns_loop (add_column_definition ''column'') (get ''columnsToAdd'' n) [] = Inr qs"
        "columns_loop (\<lambda>col ps. Inr (add_if_truthy (extractPropertyFromColumn (Some col)) ps))
           (get ''partitionBy'' n) qs = Inr ps"
      by (auto simp: extractPropertiesFromWindowNode_def split: sum.splits)
    have "once qs"
      using once_Nil q(1) by (rule once_columns_loop [rotated]) (rule once_add_column_definition)
    then show ?thesis
      using q(2) by (rule once_columns_loop [rotated]) (auto simp: once_add_if_truthy)
  qed
qed

lemma once_aggregation: "extractPropertiesFromAggregationNode node = Inr ps \<Longrightarrow> once ps"
proof (cases node)
  case None
  then show "extractPropertiesFromAggregationNode node = Inr ps \<Longrightarrow> ?thesis"
    by (simp add: extractPropertiesFromAggregationNode_def once_Nil)
next
  case (Some n)
  assume a: "extractPropertiesFromAggregationNode node = Inr ps"
  show ?thesis
  proof (cases "\<not> truthy node \<or> \<not> typeof_object node")
    case True
    with a Some show ?thesis
      by (auto simp: extractPropertiesFromAggregationNode_def once_Nil)
  next
    case False
    with a Some obtain qs where
      q: "columns_loop (add_column_definition ''aggregationColumn'') (get ''columnsToAdd'' n) []
            = Inr qs"
        "columns_loop add_group_by_column (get ''groupByColumns'' n) qs = Inr ps"
      by (auto simp: extractPropertiesFromAggregationNode_def split: sum.splits)
    have "once qs"
      using once_Nil q(1) by (rule once_columns_loop [rotated]) (rule once_add_column_definition)
    then show ?thesis
      using q(2) by (rule once_columns_loop [rotated]) (rule once_add_group_by_column)
  qed
qed

lemma once_add_parameter_value: "once s \<Longrightarrow> once (add_parameter_value v s)"
  by (simp add: add_parameter_value_def once_add_if_truthy)

lemma once_effect_properties: "once s \<Longrightarrow> once (effect_properties l s)"
  by (auto simp: effect_properties_def Let_def once_fold once_add_parameter_value
        split: option.splits)

text \<open>
  With a truthy strategy, the used properties are those of the strategy's node, then
  those of the effect.
\<close>

lemma extractAllProperties_effect:
  assumes "extractAllProperties (Some l) = Inr used"
    and "get ''strategy'' l = Some strategy" and "truthy (Some strategy)"
  shows "\<exists>ps. once ps \<and> used = effect_properties l ps
              \<and> set (extractPropertiesFromFilter (logic_filter (Some l))) \<subseteq> set ps"
proof -
  have l: "truthy (Some l) \<and> typeof_object (Some l)"
    using assms(2) by (rule get_Some_obj)
  define p0 where "p0 = (case get ''filterNode'' strategy of
                           None \<Rightarrow> []
                         | Some node \<Rightarrow>
                             if truthy (Some node)
                             then add_all (extractPropertiesFromFilter (get ''filter'' node)) []
                             else [])"
  have p0: "once p0"
    by (auto simp: p0_def once_Nil once_add_all split: option.splits)
  from assms l obtain p1 p2 where
    p1: "(if truthy (get ''windowNode'' strategy)
          then (case extractPropertiesFromWindowNode (get ''windowNode'' strategy) of
                  Inl e \<Rightarrow> Inl e
                | Inr ws \<Rightarrow> Inr (add_all ws p0))
          else Inr p0) = Inr p1"
    and p2: "(if truthy (get ''aggregationNode'' strategy)
              then (case extractPropertiesFromAggregationNode (get ''aggregationNode'' strategy) of
                      Inl e \<Rightarrow> Inl e
                    | Inr as \<Rightarrow> Inr (add_all as p1))
              else Inr p1) = Inr p2"
    and u: "used = effect_properties l p2"
    unfolding extractAllProperties_def p0_def [symmetric]
    by (simp add: Let_def p0_def [symmetric] split: sum.splits if_splits)
  have "once p1" using p1 p0 by (auto split: if_splits sum.splits simp: once_add_all)
  then have "once p2" using p2 by (auto split: if_splits sum.splits simp: once_add_all)
  moreover have "set p0 \<subseteq> set p1"
    using p1 by (auto split: if_splits sum.splits simp: set_add_all)
  moreover have "set p1 \<subseteq> set p2"
    using p2 by (auto split: if_splits sum.splits simp: set_add_all)
  moreover have "set (extractPropertiesFromFilter (logic_filter (Some l))) = set p0"
  proof (cases "get ''filterNode'' strategy")
    case None
    with assms(2) show ?thesis
      by (simp add: logic_filter_def p0_def getq_Some extractPropertiesFromFilter.simps(1))
  next
    case (Some node)
    show ?thesis
    proof (cases "truthy (Some node)")
      case True
      with Some assms(2) show ?thesis
        by (simp add: logic_filter_def p0_def getq_Some set_add_all)
    next
      case False
      then have "get ''filter'' node = None"
        by (cases node) auto
      with False Some assms(2) show ?thesis
        by (simp add: logic_filter_def p0_def getq_Some extractPropertiesFromFilter.simps(1))
    qed
  qed
  ultimately show ?thesis using u by blast
qed

lemma extractAllProperties_once:
  assumes "extractAllProperties rl = Inr used"
  shows "once used"
proof (cases rl)
  case None
  with assms show ?thesis by (simp add: extractAllProperties_def once_Nil)
next
  case (Some l)
  show ?thesis
  proof (cases "get ''strategy'' l")
    case None
    with assms Some show ?thesis
      by (auto simp: extractAllProperties_def once_Nil split: if_splits)
  next
    case strat: (Some strategy)
    show ?thesis
    proof (cases "truthy (Some strategy)")
      case True
      with assms Some strat extractAllProperties_effect once_effect_properties show ?thesis
        by blast
    next
      case False
      with assms Some strat show ?thesis
        by (auto simp: extractAllProperties_def once_Nil split: if_splits)
    qed
  qed
qed


lemma set_fold_add_parameter_value:
  "set (fold add_parameter_value vs ps)
     = set ps \<union> {extractPropertyFromColumn (get ''column'' v) | v.
                     v \<in> set vs \<and> getq ''type'' (Some v) = Some (JStr ''column'')
                     \<and> truthy (Some (extractPropertyFromColumn (get ''column'' v)))}"
  by (induction vs arbitrary: ps)
     (auto simp: add_parameter_value_def add_if_truthy_def set_set_add)




lemma set_effect_properties: "set ps \<subseteq> set (effect_properties l ps)"
  by (auto simp: effect_properties_def Let_def set_fold_add_parameter_value split: option.splits)

lemma extractAllProperties_returns:
  assumes "\<not> truthy (getq ''windowNode'' (getq ''strategy'' rl))"
    and "\<not> truthy (getq ''aggregationNode'' (getq ''strategy'' rl))"
  shows "\<exists>used. extractAllProperties rl = Inr used"
proof (cases rl)
  case None
  then show ?thesis by (simp add: extractAllProperties_def)
next
  case (Some l)
  show ?thesis
  proof (cases "get ''strategy'' l")
    case None
    with Some show ?thesis by (simp add: extractAllProperties_def)
  next
    case strat: (Some strategy)
    then have l: "getq ''strategy'' (Some l) = Some strategy"
      by (simp add: getq_Some)
    show ?thesis
    proof (cases "truthy (Some strategy)")
      case True
      from assms Some l have "\<not> truthy (get ''windowNode'' strategy)"
        "\<not> truthy (get ''aggregationNode'' strategy)"
        by (auto simp: getq_Some)
      with Some strat True show ?thesis
        by (simp add: extractAllProperties_def Let_def)
    next
      case False
      with Some strat show ?thesis by (simp add: extractAllProperties_def)
    qed
  qed
qed

lemma property_error_names:
  "sublist (ToString p) (property_error cfg p)
   \<and> sublist ''does not exist'' (property_error cfg p)
   \<and> sublist (join '', '' (map prop_id (properties cfg))) (property_error cfg p)"
proof (intro conjI)
  show "sublist (ToString p) (property_error cfg p)"
    unfolding property_error_def by (rule sublist_appendI)
  have "property_error cfg p
          = (''Property \"'' @ ToString p @ ''\" '') @ ''does not exist''
            @ ('' on object type \"'' @ object_type_id cfg @ ''\". Valid properties: ''
               @ join '', '' (map prop_id (properties cfg)))"
    by (simp add: property_error_def)
  then show "sublist ''does not exist'' (property_error cfg p)"
    by (metis sublist_appendI)
  have "property_error cfg p
          = (''Property \"'' @ ToString p @ ''\" does not exist on object type \"''
               @ object_type_id cfg @ ''\". Valid properties: '')
            @ join '', '' (map prop_id (properties cfg))"
    by (simp add: property_error_def)
  then show "sublist (join '', '' (map prop_id (properties cfg))) (property_error cfg p)"
    by (metis sublist_append_leftI)
qed

lemma validateProperties_result:
  assumes "validateProperties rl cfg = Inr r"
  shows "extractAllProperties rl = Inr (usedProperties r)
         \<and> validProperties r = map prop_id (properties cfg)
         \<and> perrors r = map (property_error cfg)
                          (filter (\<lambda>p. \<not> includes_str (map prop_id (properties cfg)) (Some p))
                             (usedProperties r))
         \<and> (pvalid r \<longleftrightarrow> perrors r = [])"
  using assms by (auto simp: validateProperties_def Let_def split: sum.splits)

lemma validateProperties_returns:
  "extractAllProperties rl = Inr used \<Longrightarrow> \<exists>r. validateProperties rl cfg = Inr r"
  by (simp add: validateProperties_def Let_def)

definition string_leaf :: "string \<Rightarrow> string \<Rightarrow> json" where
  "string_leaf propertyId op =
     JObj [(''columnFilterRule'',
              JObj [(''column'',
                       JObj [(''objectProperty'',
                                JObj [(''objectTypeId'', JStr ''demo.product''),
                                      (''propertyTypeId'', JStr propertyId)]),
                             (''type'', JStr ''objectProperty'')]),
                    (''filter'',
                       JObj [(''stringColumnFilter'',
                                JObj [(''type'', JStr op), (''values'', JArr [JStr ''x''])]),
                             (''type'', JStr ''stringColumnFilter'')])]),
           (''type'', JStr ''columnFilterRule'')]"

definition example_filter :: json where
  "example_filter =
     JObj [(''orFilterRule'',
              JObj [(''filters'',
                       JArr [string_leaf ''property_a'' ''REGEX'',
                             JObj [(''notFilterRule'',
                                      JObj [(''filter'',
                                               string_leaf ''unknown_property'' ''UNKNOWN_FILTER'')]),
                                   (''type'', JStr ''notFilterRule'')]])]),
           (''type'', JStr ''orFilterRule'')]"

definition example_logic :: json where
  "example_logic = wrapFilterAsRuleLogic example_filter example_workflow"

lemmas example_defs =
  example_logic_def example_filter_def string_leaf_def wrapFilterAsRuleLogic_def
  example_workflow_def

lemmas extract_defs =
  extractAllProperties_def effect_properties_def extractPropertiesFromFilter.simps
  set_add_def add_all_def Let_def

text \<open>
  C4. The ids extracted from a filter tree are exactly those it references through
  \<open>or\<close>, \<open>and\<close> and \<open>not\<close> nodes at any depth, and the extraction is a total function:
  no filter subtree, however malformed, makes it throw (only a \<open>null\<close> entry among the
  columns of a \<open>windowNode\<close> or \<open>aggregationNode\<close> can make \<open>validateProperties\<close>
  throw, so without these nodes it returns). Whenever \<open>validateProperties\<close> returns, the
  used properties are the extracted ones, each primitive id once, with every id the
  filter tree references among them; the errors are one per used property that the
  schema does not declare, in order; an error names its property, contains
  \<open>does not exist\<close> and lists the declared ids; the result is valid iff every used
  property is declared, so it is valid when nothing is used.
\<close>

theorem validateProperties_reports_undeclared:
  "set (extractPropertiesFromFilter (Some f)) = {p. references f p}
   \<and> (\<not> truthy (getq ''windowNode'' (getq ''strategy'' rl))
        \<and> \<not> truthy (getq ''aggregationNode'' (getq ''strategy'' rl))
      \<longrightarrow> (\<exists>r. validateProperties rl cfg = Inr r))
   \<and> (validateProperties rl cfg = Inr r
      \<longrightarrow> extractAllProperties rl = Inr (usedProperties r)
          \<and> once (usedProperties r)
          \<and> (\<forall>g q. logic_filter rl = Some g \<and> references g q \<longrightarrow> q \<in> set (usedProperties r))
          \<and> perrors r = map (property_error cfg)
                           (filter (\<lambda>q. \<not> includes_str (map prop_id (properties cfg)) (Some q))
                              (usedProperties r))
          \<and> (pvalid r \<longleftrightarrow>
                (\<forall>q \<in> set (usedProperties r). includes_str (map prop_id (properties cfg)) (Some q)))
          \<and> (usedProperties r = [] \<longrightarrow> pvalid r))
   \<and> sublist (ToString p) (property_error cfg p)
   \<and> sublist ''does not exist'' (property_error cfg p)
   \<and> sublist (join '', '' (map prop_id (properties cfg))) (property_error cfg p)"
proof (intro conjI impI)
  show "set (extractPropertiesFromFilter (Some f)) = {p. references f p}"
    by (rule extract_references)
next
  assume "\<not> truthy (getq ''windowNode'' (getq ''strategy'' rl))
        \<and> \<not> truthy (getq ''aggregationNode'' (getq ''strategy'' rl))"
  then show "\<exists>r. validateProperties rl cfg = Inr r"
    using extractAllProperties_returns validateProperties_returns by blast
next
  assume v: "validateProperties rl cfg = Inr r"
  note res = validateProperties_result [OF v]
  show used: "extractAllProperties rl = Inr (usedProperties r)"
    using res by blast
  show "once (usedProperties r)"
    using used by (rule extractAllProperties_once)
  show errs: "perrors r = map (property_error cfg)
                           (filter (\<lambda>q. \<not> includes_str (map prop_id (properties cfg)) (Some q))
                              (usedProperties r))"
    using res by blast
  show "pvalid r \<longleftrightarrow>
          (\<forall>q \<in> set (usedProperties r). includes_str (map prop_id (properties cfg)) (Some q))"
    using res by (auto simp: filter_empty_conv)
  show "pvalid r" if "usedProperties r = []"
    using res that by auto
  show "\<forall>g q. logic_filter rl = Some g \<and> references g q \<longrightarrow> q \<in> set (usedProperties r)"
  proof (intro allI impI)
    fix g q
    assume a: "logic_filter rl = Some g \<and> references g q"
    then obtain l where l: "rl = Some l"
      by (cases rl) (auto simp: logic_filter_def)
    from a l obtain strategy where s: "get ''strategy'' l = Some strategy"
      by (cases "get ''strategy'' l") (auto simp: logic_filter_def getq_Some)
    from a l s have "get ''filterNode'' strategy \<noteq> None"
      by (cases "get ''filterNode'' strategy") (auto simp: logic_filter_def getq_Some)
    then have "truthy (Some strategy)"
      using get_Some_obj by blast
    with used l s obtain ps where
      ps: "usedProperties r = effect_properties l ps"
        "set (extractPropertiesFromFilter (logic_filter (Some l))) \<subseteq> set ps"
      using extractAllProperties_effect by blast
    have "q \<in> set (extractPropertiesFromFilter (Some g))"
      using a by (simp add: referenced_is_extracted)
    with a l ps show "q \<in> set (usedProperties r)"
      using set_effect_properties by fastforce
  qed
qed (simp_all add: property_error_names)

text \<open>The nested example: an undeclared property under \<open>or\<close> and \<open>not\<close>.\<close>

definition example_property_result :: PropertyValidationResult where
  "example_property_result =
     \<lparr> pvalid = False,
       perrors = [property_error (objectType example_workflow) (JStr ''unknown_property'')],
       usedProperties = [JStr ''property_a'', JStr ''unknown_property''],
       validProperties = [''property_a'', ''property_b'', ''property_c''] \<rparr>"

lemma example_validateProperties:
  "validateProperties (Some example_logic) (objectType example_workflow)
     = Inr example_property_result"
  by (simp add: validateProperties_def example_property_result_def extract_defs example_defs)

theorem validateProperties_reports_undeclared_witness:
  "validateProperties (Some example_logic) (objectType example_workflow)
     = Inr example_property_result
   \<and> logic_filter (Some example_logic) = Some example_filter
   \<and> JStr ''unknown_property'' \<in> {p. references example_filter p}
   \<and> JStr ''unknown_property'' \<in> set (usedProperties example_property_result)
   \<and> \<not> pvalid example_property_result
   \<and> perrors example_property_result
       = [property_error (objectType example_workflow) (JStr ''unknown_property'')]
   \<and> sublist ''unknown_property''
       (property_error (objectType example_workflow) (JStr ''unknown_property''))
   \<and> sublist ''does not exist''
       (property_error (objectType example_workflow) (JStr ''unknown_property''))"
proof -
  have f: "extractPropertiesFromFilter (Some example_filter)
             = [JStr ''property_a'', JStr ''unknown_property'']"
    by (simp add: extract_defs example_defs)
  have lf: "logic_filter (Some example_logic) = Some example_filter"
    by (simp add: logic_filter_def example_logic_def wrapFilterAsRuleLogic_def)
  note t = validateProperties_reports_undeclared
      [of example_filter "Some example_logic" "objectType example_workflow"
          example_property_result "JStr ''unknown_property''"]
  have "JStr ''unknown_property'' \<in> set (extractPropertiesFromFilter (Some example_filter))"
    by (simp add: f)
  then have r: "JStr ''unknown_property'' \<in> {p. references example_filter p}"
    using t [THEN conjunct1] by simp
  show ?thesis
    using t [THEN conjunct2] example_validateProperties lf r
    by (simp add: example_property_result_def)
qed




section \<open>Properties of the filter type pass\<close>











definition example_validation :: ValidationConfig where
  "example_validation =
     \<lparr> grammarVersion = ''V1'',
       supportedStrategyTypes = [''filterNode'', ''windowNode'', ''aggregationNode''],
       supportedStringFilters = [''EQUALS'', ''CONTAINS''],
       unsupportedStringFilters = Some [''REGEX''],
       supportedNumericFilters = Some [''EQUALS'', ''GREATER_THAN''],
       supportedNullFilters = Some [''NULL'', ''NOT_NULL''] \<rparr>"



section \<open>Properties of the full validation\<close>

definition example_config :: ResolvedConfig where
  "example_config = \<lparr> workflow = example_workflow, validation = example_validation \<rparr>"

lemma validateRuleLogic_valid:
  "validateRuleLogic rl cfg = Inr sr \<Longrightarrow> (valid sr \<longleftrightarrow> errors sr = [])"
  by (auto simp: validateRuleLogic_def Let_def split: option.splits if_splits sum.splits)

text \<open>
  C6. When the structure pass returns an invalid result, the full validator returns at
  once: invalid, with the errors of the structure pass, which are not empty, and with
  empty lists of property errors, filter errors and filter warnings. The console gains
  the one line of the structure pass, so neither later pass has run.
\<close>

theorem full_validation_fail_fast:
  assumes "validateRuleLogic rl (validation config) = Inr sr" and "\<not> valid sr"
  shows "performFullValidation rl config console
           = (Inr \<lparr> full_valid = False, structureErrors = errors sr, propertyErrors = [],
                    filterErrors = [], filterWarnings = [] \<rparr>,
              console @ [''Validating structure...''])
         \<and> errors sr \<noteq> []"
  using assms validateRuleLogic_valid [OF assms(1)]
  by (simp add: performFullValidation_def Let_def)

text \<open>A rule logic of the wrong grammar version, with nothing else in it.\<close>

definition example_structure_result :: ValidationResult where
  "example_structure_result =
     \<lparr> valid = False,
       errors = [''grammarVersion must be 'V1', got: V2'',
                 ''workflowRid is required and must be a string'',
                 ''strategy is required and must be an object'',
                 ''effect is required and must be an object''],
       warnings = None \<rparr>"

theorem full_validation_fail_fast_witness:
  "validateRuleLogic (Some (JObj [(''grammarVersion'', JStr ''V2'')])) (validation example_config)
     = Inr example_structure_result
   \<and> \<not> valid example_structure_result
   \<and> performFullValidation (Some (JObj [(''grammarVersion'', JStr ''V2'')])) example_config []
       = (Inr \<lparr> full_valid = False, structureErrors = errors example_structure_result,
                propertyErrors = [], filterErrors = [], filterWarnings = [] \<rparr>,
          [''Validating structure...''])"
proof -
  have v: "validateRuleLogic (Some (JObj [(''grammarVersion'', JStr ''V2'')]))
             (validation example_config) = Inr example_structure_result"
    by (simp add: validateRuleLogic_def check_strategy_def check_effect_def Let_def
          example_config_def example_validation_def example_structure_result_def)
  have n: "\<not> valid example_structure_result"
    by (simp add: example_structure_result_def)
  show ?thesis
    using full_validation_fail_fast [OF v n, of "[]"] v n by simp
qed

section \<open>Properties of the JSON text\<close>

subsection \<open>Numbers\<close>

lemma digit_char_props:
  "k < 10 \<Longrightarrow> is_digit (digit_char k) \<and> digit_val (digit_char k) = k"
  by (simp add: is_digit_def digit_val_def)


lemma show_nat_digits: "\<forall>c \<in> set (show_nat n). is_digit c"
proof (induction n rule: show_nat.induct)
  case (1 n)
  show ?case
  proof (cases "n < 10")
    case True
    then show ?thesis
      by (subst show_nat.simps) (simp add: digit_char_props del: digit_char.simps)
  next
    case False
    then have "n mod 10 < 10" by simp
    with False 1 show ?thesis
      by (subst show_nat.simps) (auto simp: digit_char_props simp del: digit_char.simps)
  qed
qed

lemma show_nat_nonempty: "show_nat n \<noteq> []"
  by (subst show_nat.simps) simp











subsection \<open>Strings\<close>

declare parse_chars.simps [simp del]

lemma hex_val_hex_digit: "k < 16 \<Longrightarrow> hex_val (hex_digit k) = Some k"
  by (auto simp: hex_val_def hex_digit_def Let_def)

lemma hex_val_zero: "hex_val (CHR ''0'') = Some 0"
  by (simp add: hex_val_def)

lemma char_of_div_mod: "char_of (16 * ((of_char c :: nat) div 16) + of_char c mod 16) = c"
  by simp

lemma parse_chars_plain:
  assumes "c \<noteq> CHR 0x22" and "c \<noteq> CHR 0x5C" and "\<not> (of_char c :: nat) < 0x20"
  shows "parse_chars (c # t)
           = (case parse_chars t of None \<Rightarrow> None | Some (s, rest) \<Rightarrow> Some (c # s, rest))"
  using assms by (simp add: parse_chars.simps)

lemma parse_chars_short:
  assumes "unescape e = Some c" and "e \<noteq> CHR ''u''"
  shows "parse_chars (CHR 0x5C # e # t)
           = (case parse_chars t of None \<Rightarrow> None | Some (s, rest) \<Rightarrow> Some (c # s, rest))"
  using assms by (simp add: parse_chars.simps)

lemma parse_chars_unicode:
  assumes "(of_char c :: nat) < 0x20"
  shows "parse_chars (CHR 0x5C # CHR ''u'' # CHR ''0'' # CHR ''0''
                        # hex_digit (of_char c div 16) # hex_digit (of_char c mod 16) # t)
           = (case parse_chars t of None \<Rightarrow> None | Some (s, rest) \<Rightarrow> Some (c # s, rest))"
proof -
  have h: "hex_val (hex_digit ((of_char c :: nat) div 16)) = Some (of_char c div 16)"
    using assms by (intro hex_val_hex_digit) simp
  have l: "hex_val (hex_digit ((of_char c :: nat) mod 16)) = Some (of_char c mod 16)"
    by (intro hex_val_hex_digit) simp
  show ?thesis
    by (simp add: parse_chars.simps hex_val_zero h l char_of_div_mod split: option.splits)
qed

lemma parse_chars_escape:
  "parse_chars (escape_char c @ t)
     = (case parse_chars t of None \<Rightarrow> None | Some (s, rest) \<Rightarrow> Some (c # s, rest))"
proof -
  consider (q) "c = CHR 0x22" | (bs) "c = CHR 0x5C" | (b) "c = CHR 0x08" | (f) "c = CHR 0x0C"
    | (n) "c = CHR 0x0A" | (r) "c = CHR 0x0D" | (t) "c = CHR 0x09"
    | (ctl) "c \<notin> {CHR 0x22, CHR 0x5C, CHR 0x08, CHR 0x0C, CHR 0x0A, CHR 0x0D, CHR 0x09}"
        "(of_char c :: nat) < 0x20"
    | (plain) "c \<notin> {CHR 0x22, CHR 0x5C, CHR 0x08, CHR 0x0C, CHR 0x0A, CHR 0x0D, CHR 0x09}"
        "\<not> (of_char c :: nat) < 0x20"
    by blast
  then show ?thesis
  proof cases
    case q
    then show ?thesis
      using parse_chars_short [of "CHR 0x22" c t] by (simp add: escape_char_def unescape_def)
  next
    case bs
    then show ?thesis
      using parse_chars_short [of "CHR 0x5C" c t] by (simp add: escape_char_def unescape_def)
  next
    case b
    then show ?thesis
      using parse_chars_short [of "CHR ''b''" c t] by (simp add: escape_char_def unescape_def)
  next
    case f
    then show ?thesis
      using parse_chars_short [of "CHR ''f''" c t] by (simp add: escape_char_def unescape_def)
  next
    case n
    then show ?thesis
      using parse_chars_short [of "CHR ''n''" c t] by (simp add: escape_char_def unescape_def)
  next
    case r
    then show ?thesis
      using parse_chars_short [of "CHR ''r''" c t] by (simp add: escape_char_def unescape_def)
  next
    case t
    then show ?thesis
      using parse_chars_short [of "CHR ''t''" c t] by (simp add: escape_char_def unescape_def)
  next
    case ctl
    then show ?thesis
      using parse_chars_unicode [of c t] by (simp add: escape_char_def)
  next
    case plain
    then show ?thesis
      using parse_chars_plain [of c t] by (simp add: escape_char_def)
  qed
qed

lemma parse_chars_quote:
  "parse_chars (concat (map escape_char s) @ CHR 0x22 # rest) = Some (s, rest)"
proof (induction s)
  case Nil
  then show ?case by (simp add: parse_chars.simps)
next
  case (Cons c s)
  then show ?case by (simp add: parse_chars_escape)
qed

lemma parse_chars_quoted: "parse_chars (tl (quote s) @ rest) = Some (s, rest)"
  by (simp add: quote_def parse_chars_quote)

subsection \<open>Values\<close>


text \<open>A text that starts a value or a member: its first character is no white space.\<close>

definition starts_token :: "string \<Rightarrow> bool" where
  "starts_token s \<longleftrightarrow> s \<noteq> [] \<and> \<not> is_ws (hd s) \<and> hd s \<notin> {CHR '']'', CHR ''}'', CHR '',''}"


lemma skip_ws_char: "\<not> is_ws c \<Longrightarrow> skip_ws (c # t) = c # t"
  by simp

lemma quote_Cons: "quote s = CHR 0x22 # tl (quote s)"
  by (simp add: quote_def)

lemma show_int_first:
  "\<exists>c cs. show_int i = c # cs \<and> (c = CHR ''-'' \<or> is_digit c)"
proof (cases "i < 0")
  case True
  then show ?thesis by (simp add: show_int_def)
next
  case False
  obtain c cs where c: "show_nat (nat i) = c # cs"
    using show_nat_nonempty by (cases "show_nat (nat i)") auto
  then have "is_digit c" using show_nat_digits [of "nat i"] by auto
  with False c show ?thesis by (simp add: show_int_def)
qed

lemma stringify_starts: "starts_token (JSON_stringify v)"
proof (cases v)
  case (JNum i)
  obtain c cs where "show_int i = c # cs" "c = CHR ''-'' \<or> is_digit c"
    using show_int_first by blast
  with JNum show ?thesis
    by (auto simp: starts_token_def is_ws_def is_digit_def)
qed (auto simp: starts_token_def is_ws_def quote_def)

lemma stringify_nonempty: "JSON_stringify v \<noteq> []"
  using stringify_starts by (auto simp: starts_token_def)


















section \<open>Properties of the compressor\<close>


text \<open>
  A stand-in for the library, to instantiate the theorems: it marks a decoded with a
  letter, and like the library it decodes a missing input to the empty string and
  the empty input to \<open>null\<close>.
\<close>

definition marker_codec :: LZString where
  "marker_codec =
     \<lparr> compressToEncodedURIComponent = (\<lambda>decoded. CHR ''Q'' # decoded),
       decompressFromEncodedURIComponent =
         (\<lambda>input. case input of
                     None \<Rightarrow> Inr (Some [])
                   | Some JNull \<Rightarrow> Inr (Some [])
                   | Some (JStr []) \<Rightarrow> Inr None
                   | Some (JStr (c # decoded)) \<Rightarrow> if c = CHR ''Q'' then Inr (Some decoded) else Inr None
                   | Some _ \<Rightarrow> Inl (TypeError ''input.replace is not a function'')) \<rparr>"













text \<open>
  The bytes of the UTF-8 encoding of a string: one for a code unit below 128, two for
  the others below 256.
\<close>

definition utf8_length :: "string \<Rightarrow> nat" where
  "utf8_length s = sum_list (map (\<lambda>c. if (of_char c :: nat) < 128 then 1 else 2) s)"

lemma utf8_length_ascii: "\<forall>c \<in> set s. (of_char c :: nat) < 128 \<Longrightarrow> utf8_length s = length s"
  by (induction s) (simp_all add: utf8_length_def)

text \<open>
  C8, as amended. \<open>originalSize\<close> is the length of the JSON text of the value in code
  units, which is positive, and which is the number of its bytes when all its
  characters are below 128; \<open>compressedSize\<close> is the length of the encoded text; and
  \<open>ratio\<close> is \<open>compressedSize\<close> divided by \<open>originalSize\<close>.
\<close>

theorem getCompressionStats_sizes:
  "originalSize (getCompressionStats lz v) = length (JSON_stringify v)
   \<and> 0 < originalSize (getCompressionStats lz v)
   \<and> compressedSize (getCompressionStats lz v)
       = length (compressToEncodedURIComponent lz (JSON_stringify v))
   \<and> ratio (getCompressionStats lz v)
       = real (compressedSize (getCompressionStats lz v))
         / real (originalSize (getCompressionStats lz v))
   \<and> ((\<forall>c \<in> set (JSON_stringify v). (of_char c :: nat) < 128)
      \<longrightarrow> originalSize (getCompressionStats lz v) = utf8_length (JSON_stringify v))"
  using stringify_nonempty [of v]
  by (simp add: getCompressionStats_def Let_def utf8_length_ascii)

theorem getCompressionStats_sizes_witness:
  "set (JSON_stringify (JObj [])) \<subseteq> {c. (of_char c :: nat) < 128}
   \<and> originalSize (getCompressionStats marker_codec (JObj [])) = 2
   \<and> utf8_length (JSON_stringify (JObj [])) = 2
   \<and> compressedSize (getCompressionStats marker_codec (JObj [])) = 3
   \<and> ratio (getCompressionStats marker_codec (JObj [])) = 3 / 2"
  using getCompressionStats_sizes [of marker_codec "JObj []"]
  by (simp add: marker_codec_def utf8_length_def)

text \<open>
  The claim as stated fails: the text of a string with a character above 127 is
  shorter in code units than in bytes.
\<close>

theorem original_size_byte_length_counterexample:
  "originalSize (getCompressionStats marker_codec (JStr [CHR 0xE9])) = 3
   \<and> utf8_length (JSON_stringify (JStr [CHR 0xE9])) = 4"
  by (simp add: getCompressionStats_def Let_def utf8_length_def quote_def escape_char_def)

end
